theory Spec2Isabelle
  imports Complex_Main "HOL-Library.Char_ord" "HOL-Library.List_Lexorder" "HOL-Library.Multiset"
    "HOL-Library.Sublist"
begin

section \<open>Eiten portfolio manager: \<^verbatim>\<open>portfolio_manager.py\<close>\<close>

text \<open>
  A shallow embedding of \<^verbatim>\<open>ArgChecker\<close> and \<^verbatim>\<open>Eiten\<close>. Python floats are
  idealised as \<^typ>\<open>real\<close> (no rounding, no overflow); Python exceptions are values of
  the type \<open>error\<close>, returned as \<open>Inl\<close>.
\<close>

subsection \<open>Exceptions\<close>

datatype error =
    AssertionError string
  | ConversionError
  | ZeroDivisionError
  | MathDomainError
  | InhomogeneousShapeError
  | CollaboratorError string

text \<open>
  \<^item> \<open>AssertionError msg\<close>: a failed \<^verbatim>\<open>assert\<close> with its message;
  \<^item> \<open>ConversionError\<close>: \<^verbatim>\<open>int(args.history_to_use_int)\<close> raised;
  \<^item> \<open>ZeroDivisionError\<close>: Python's \<^verbatim>\<open>/\<close> with a zero divisor;
  \<^item> \<open>MathDomainError\<close>: the \<^verbatim>\<open>ValueError\<close> of \<^verbatim>\<open>math.log\<close> on a non-positive argument;
  \<^item> \<open>InhomogeneousShapeError\<close>: the \<^verbatim>\<open>ValueError\<close> of \<^verbatim>\<open>np.array\<close> on rows of
    different lengths (numpy from 1.24 on);
  \<^item> \<open>CollaboratorError name\<close>: an exception raised inside the back tester or the
    simulator, by its name.
\<close>

definition bind_result :: "error + 'a \<Rightarrow> ('a \<Rightarrow> error + 'b) \<Rightarrow> error + 'b" where
  "bind_result r f = (case r of Inl e \<Rightarrow> Inl e | Inr v \<Rightarrow> f v)"

subsection \<open>Command-line arguments\<close>

text \<open>
  The attributes of \<^verbatim>\<open>args\<close> that the module reads. The flags are integers, as the
  sample run passes them (\<^verbatim>\<open>--is_test 1\<close>); \<open>history_to_use_int\<close> is the value of
  \<^verbatim>\<open>int(args.history_to_use_int)\<close>, \<open>None\<close> when that conversion raises.
\<close>

record args =
  save_plot :: int
  history_to_use :: string
  history_to_use_int :: "int option"
  data_granularity_minutes :: int
  future_bars :: int
  apply_noise_filtering :: int
  only_long :: int
  market_index :: string
  is_test :: int
  eigen_portfolio_number :: int
  stocks_file_path :: string

definition truthy :: "int \<Rightarrow> bool" where
  "truthy n = (n \<noteq> 0)"

subsection \<open>\<^verbatim>\<open>ArgChecker.check_arguments\<close>\<close>

function str_nat :: "nat \<Rightarrow> string" where
  "str_nat n =
     (if n < 10 then [''0123456789'' ! n]
      else str_nat (n div 10) @ [''0123456789'' ! (n mod 10)])"
  by pat_completeness auto
termination
  by (relation "measure id") auto

definition str_int :: "int \<Rightarrow> string" where
  "str_int i = (if i < 0 then ''-'' @ str_nat (nat (- i)) else str_nat (nat i))"

definition strip_commas :: "string \<Rightarrow> string" where
  "strip_commas s =
     rev (dropWhile (\<lambda>c. c = CHR '','') (rev (dropWhile (\<lambda>c. c = CHR '','') s)))"

definition granularity_constraints_list :: "int list" where
  "granularity_constraints_list = [1, 5, 10, 15, 30, 60, 3600]"

definition granularity_constraints_list_string :: string where
  "granularity_constraints_list_string =
     strip_commas (concat (map (\<lambda>v. str_int v @ '','') granularity_constraints_list))"

definition granularity_message :: string where
  "granularity_message =
     ''You can only choose the following values for 'data_granularity_minutes' argument -> ''
     @ granularity_constraints_list_string @ [CHR 0x0A] @ ''Exiting now...''"

definition future_bars_message :: string where
  "future_bars_message =
     ''You want to test but the future bars are less than 2. That does not give us enough data to test the model properly. Please use a value larger than 2.''
     @ [CHR 0x0A] @ ''Exiting now...''"

definition history_message :: string where
  "history_message =
     ''It is a good idea to use more history and less future bars. Please change these two values and try again.''
     @ [CHR 0x0A] @ ''Exiting now...''"

text \<open>
  The three \<^verbatim>\<open>assert\<close> statements in their order. The third one evaluates
  \<^verbatim>\<open>int(args.history_to_use_int)\<close> only when \<^verbatim>\<open>history_to_use\<close> is not \<^verbatim>\<open>"all"\<close>
  (\<^verbatim>\<open>and\<close> short-circuits).
\<close>

definition check_arguments :: "args \<Rightarrow> error + unit" where
  "check_arguments a =
     (if data_granularity_minutes a \<notin> set granularity_constraints_list
      then Inl (AssertionError granularity_message)
      else if is_test a = 1 \<and> future_bars a < 2
      then Inl (AssertionError future_bars_message)
      else if history_to_use a \<noteq> ''all''
      then (case history_to_use_int a of
              None \<Rightarrow> Inl ConversionError
            | Some h \<Rightarrow>
                if h < future_bars a then Inl (AssertionError history_message) else Inr ())
      else Inr ())"

subsection \<open>Float operations that can raise\<close>

definition py_div :: "real \<Rightarrow> real \<Rightarrow> error + real" where
  "py_div a b = (if b = 0 then Inl ZeroDivisionError else Inr (a / b))"

definition math_log :: "real \<Rightarrow> error + real" where
  "math_log x = (if x \<le> 0 then Inl MathDomainError else Inr (ln x))"

text \<open>
  A list comprehension whose element expression can raise: the elements are evaluated
  in order and the first exception leaves the comprehension.
\<close>

fun comprehension :: "('a \<Rightarrow> error + 'b) \<Rightarrow> 'a list \<Rightarrow> error + 'b list" where
  "comprehension f [] = Inr []"
| "comprehension f (x # xs) =
     bind_result (f x) (\<lambda>y. bind_result (comprehension f xs) (\<lambda>ys. Inr (y # ys)))"

text \<open>
  \<^verbatim>\<open>np.mean\<close> of a list of floats; on the empty list it is \<^verbatim>\<open>nan\<close> (the
  \<^verbatim>\<open>RuntimeWarning\<close> is filtered out by \<^verbatim>\<open>warnings.filterwarnings("ignore")\<close>).
\<close>

datatype np_float = Finite real | NaN

definition np_mean :: "real list \<Rightarrow> np_float" where
  "np_mean xs = (if xs = [] then NaN else Finite (sum_list xs / real (length xs)))"

text \<open>
  \<^verbatim>\<open>np.array\<close> of a list of rows. When the rows differ in length, numpy before 1.24
  builds an array of row objects and numpy from 1.24 on raises \<^verbatim>\<open>ValueError\<close>; the
  flag \<open>ragged_raises\<close> says which numpy runs.
\<close>

definition np_array :: "bool \<Rightarrow> 'a list list \<Rightarrow> error + 'a list list" where
  "np_array ragged_raises rows =
     (if ragged_raises \<and> \<not> list_all (\<lambda>r. length r = length (hd rows)) rows
      then Inl InhomogeneousShapeError else Inr rows)"

subsection \<open>\<^verbatim>\<open>Eiten.calculate_percentage_change\<close> and \<^verbatim>\<open>Eiten.create_returns\<close>\<close>

definition calculate_percentage_change :: "real \<Rightarrow> real \<Rightarrow> error + real" where
  "calculate_percentage_change old new = py_div ((new - old) * 100) old"

text \<open>
  The body of the \<^verbatim>\<open>for\<close> loop of \<^verbatim>\<open>create_returns\<close> for one asset, whose
  \<^verbatim>\<open>"Close"\<close> column is the list \<open>close_prices\<close>: the log returns, the percentage
  returns and the expected return, in the order the source computes them. The elements of
  \<^verbatim>\<open>list(...["Close"])\<close> are Python floats (iterating a pandas column yields Python
  scalars), so a zero divisor raises; the indices \<open>i\<close> and \<open>i - 1\<close> are always in range.
\<close>

definition returns_of_series :: "real list \<Rightarrow> error + (np_float \<times> real list \<times> real list)" where
  "returns_of_series close_prices =
     bind_result
       (comprehension
          (\<lambda>i. bind_result (py_div (close_prices ! i) (close_prices ! (i - 1))) math_log)
          [1..<length close_prices])
       (\<lambda>log_returns.
     bind_result
       (comprehension
          (\<lambda>i. calculate_percentage_change (close_prices ! (i - 1)) (close_prices ! i))
          [1..<length close_prices])
       (\<lambda>percentage_returns.
     let total_data = length close_prices in
     bind_result
       (comprehension
          (\<lambda>i. bind_result
                 (calculate_percentage_change (close_prices ! (i - 1)) (close_prices ! i))
                 (\<lambda>c. py_div c (real (total_data - i))))
          [1..<length close_prices])
       (\<lambda>weighted. Inr (np_mean weighted, log_returns, percentage_returns))))"

fun create_returns_loop ::
  "real list list \<Rightarrow> real list list \<Rightarrow> real list list \<Rightarrow> np_float list \<Rightarrow>
     error + (real list list \<times> real list list \<times> np_float list)" where
  "create_returns_loop [] returns_matrix returns_matrix_percentages predicted_return_vectors =
     Inr (returns_matrix, returns_matrix_percentages, predicted_return_vectors)"
| "create_returns_loop (close_prices # rest) returns_matrix returns_matrix_percentages
       predicted_return_vectors =
     bind_result (returns_of_series close_prices)
       (\<lambda>(future_expected_returns, log_returns, percentage_returns).
          create_returns_loop rest
            (returns_matrix @ [log_returns])
            (returns_matrix_percentages @ [percentage_returns])
            (predicted_return_vectors @ [future_expected_returns]))"

text \<open>
  \<open>historical_price_info\<close> is the list of the assets' \<^verbatim>\<open>"Close"\<close> columns. The result
  is \<^verbatim>\<open>(predicted_return_vectors, returns_matrix, returns_matrix_percentages)\<close>.
\<close>

definition create_returns ::
  "bool \<Rightarrow> real list list \<Rightarrow> error + (np_float list \<times> real list list \<times> real list list)" where
  "create_returns ragged_raises historical_price_info =
     bind_result (create_returns_loop historical_price_info [] [] [])
       (\<lambda>(rows, rows_percentages, predicted_return_vectors).
     bind_result (np_array ragged_raises rows)
       (\<lambda>returns_matrix.
     bind_result (np_array ragged_raises rows_percentages)
       (\<lambda>returns_matrix_percentages.
     Inr (predicted_return_vectors, returns_matrix, returns_matrix_percentages))))"

subsection \<open>What \<^verbatim>\<open>create_returns\<close> computes when nothing raises\<close>

text \<open>
  A step \<open>i\<close> of a series raises nothing when the earlier price is not zero and the
  ratio of the two prices is positive; the rows and the expected return below are the
  values of the three comprehensions of the loop body in that case.
\<close>

definition step_ok :: "real list \<Rightarrow> nat \<Rightarrow> bool" where
  "step_ok close_prices i \<longleftrightarrow>
     close_prices ! (i - 1) \<noteq> 0 \<and> 0 < close_prices ! i / close_prices ! (i - 1)"

definition series_ok :: "real list \<Rightarrow> bool" where
  "series_ok close_prices = list_all (step_ok close_prices) [1..<length close_prices]"

definition log_returns_row :: "real list \<Rightarrow> real list" where
  "log_returns_row close_prices =
     map (\<lambda>i. ln (close_prices ! i / close_prices ! (i - 1))) [1..<length close_prices]"

definition percentage_returns_row :: "real list \<Rightarrow> real list" where
  "percentage_returns_row close_prices =
     map (\<lambda>i. (close_prices ! i - close_prices ! (i - 1)) * 100 / close_prices ! (i - 1))
       [1..<length close_prices]"

definition expected_return :: "real list \<Rightarrow> np_float" where
  "expected_return close_prices =
     np_mean (map (\<lambda>i. (close_prices ! i - close_prices ! (i - 1)) * 100
                         / close_prices ! (i - 1) / real (length close_prices - i))
                [1..<length close_prices])"

text \<open>
  The rows of both return matrices have the same lengths when the series agree in their
  number of returns (a series of \<open>L\<close> prices has \<open>L - 1\<close> returns, none when \<open>L = 0\<close>).
\<close>

definition returns_rectangular :: "real list list \<Rightarrow> bool" where
  "returns_rectangular historical_price_info =
     list_all (\<lambda>cp. length cp - 1 = length (hd historical_price_info) - 1) historical_price_info"

subsection \<open>\<^verbatim>\<open>Eiten.load_data\<close> and \<^verbatim>\<open>Eiten.run_strategies\<close>\<close>

text \<open>
  A Python dict is the list of its items in insertion order, with distinct keys. A
  \<open>weights\<close> dictionary maps symbols to portfolio weights; the data dictionary maps each
  symbol to the \<^verbatim>\<open>"Close"\<close> columns of its \<^verbatim>\<open>"historical_prices"\<close> and
  \<^verbatim>\<open>"future_prices"\<close>.
\<close>

type_synonym matrix = "real list list"

type_synonym weights = "(string \<times> real) list"

type_synonym data_dictionary = "(string \<times> real list \<times> real list) list"

text \<open>
  \<open>dict_get d k\<close> is \<^verbatim>\<open>d[k]\<close>; the module only looks up keys it has just read
  from \<^verbatim>\<open>d.keys()\<close>.
\<close>

definition dict_keys :: "('k \<times> 'v) list \<Rightarrow> 'k list" where
  "dict_keys d = map fst d"

definition dict_get :: "('k \<times> 'v) list \<Rightarrow> 'k \<Rightarrow> 'v" where
  "dict_get d k = the (map_of d k)"

text \<open>
  The collaborators are not part of the module. \<open>data_engine\<close> holds what the two calls
  to the \<^verbatim>\<open>DataEngine\<close> return in a run; \<open>strategy_manager\<close> holds \<^verbatim>\<open>np.cov\<close> and
  the functions of the \<^verbatim>\<open>StrategyManager\<close>, which return their estimates and weights.
  \<open>collaborators\<close> adds the back tester and the simulator: \<^verbatim>\<open>back_test\<close>,
  \<^verbatim>\<open>future_test\<close> and \<^verbatim>\<open>simulate_portfolio\<close> return nothing the module uses, but
  each call may raise (\<open>Some e\<close>) instead of returning (\<open>None\<close>). Every call to a
  collaborator is recorded, with its arguments, as an \<open>event\<close>.
\<close>

record data_engine =
  collect_data_for_all_tickers :: data_dictionary
  get_market_index_price :: "real list \<times> real list"

record strategy_manager =
  np_cov :: "matrix \<Rightarrow> matrix"
  random_matrix_theory_based_cov :: "matrix \<Rightarrow> matrix"
  calculate_eigen_portfolio :: "string list \<Rightarrow> matrix \<Rightarrow> int \<Rightarrow> weights"
  calculate_minimum_variance_portfolio :: "string list \<Rightarrow> matrix \<Rightarrow> weights"
  calculate_maximum_sharpe_portfolio :: "string list \<Rightarrow> matrix \<Rightarrow> np_float list \<Rightarrow> weights"
  calculate_genetic_algo_portfolio :: "string list \<Rightarrow> matrix \<Rightarrow> weights"

record collaborators = strategy_manager +
  back_test ::
    "string list \<Rightarrow> weights \<Rightarrow> data_dictionary \<Rightarrow> real list \<Rightarrow> int \<Rightarrow> bool \<Rightarrow> string
       \<Rightarrow> error option"
  future_test ::
    "string list \<Rightarrow> weights \<Rightarrow> data_dictionary \<Rightarrow> real list \<Rightarrow> int \<Rightarrow> bool \<Rightarrow> string
       \<Rightarrow> error option"
  simulate_portfolio ::
    "string list \<Rightarrow> weights \<Rightarrow> data_dictionary \<Rightarrow> real list \<Rightarrow> int \<Rightarrow> bool \<Rightarrow> string
       \<Rightarrow> error option"

datatype event =
    Call_collect_data_for_all_tickers
  | Call_get_market_index_price
  | Call_np_cov matrix
  | Call_random_matrix_theory_based_cov matrix
  | Call_calculate_eigen_portfolio "string list" matrix int
  | Call_calculate_minimum_variance_portfolio "string list" matrix
  | Call_calculate_maximum_sharpe_portfolio "string list" matrix "np_float list"
  | Call_calculate_genetic_algo_portfolio "string list" matrix
  | Print string
  | Print_weight string real
  | Plt_bar "real list" "real list" string real
  | Plt_xticks "real list" "string list"
  | Plt_yticks
  | Plt_xlabel string
  | Plt_ylabel string
  | Plt_title string
  | Plt_grid
  | Plt_legend
  | Plt_savefig string
  | Plt_tight_layout
  | Plt_show
  | Back_test "string list" weights data_dictionary "real list" int bool string
  | Future_test "string list" weights data_dictionary "real list" int bool string
  | Simulate_portfolio "string list" weights data_dictionary "real list" int bool string

definition load_data ::
  "bool \<Rightarrow> data_engine \<Rightarrow>
     error + (real list list \<times> real list list \<times> string list \<times> np_float list \<times> matrix \<times> matrix)" where
  "load_data ragged_raises de =
     (let data_dictionary = collect_data_for_all_tickers de;
          symbol_names = sort (dict_keys data_dictionary);
          historical_price_info = map (\<lambda>symbol. fst (dict_get data_dictionary symbol)) symbol_names;
          future_prices = map (\<lambda>symbol. snd (dict_get data_dictionary symbol)) symbol_names
      in bind_result (create_returns ragged_raises historical_price_info)
           (\<lambda>(predicted_return_vectors, returns_matrix, returns_matrix_percentages).
              Inr (historical_price_info, future_prices, symbol_names, predicted_return_vectors,
                   returns_matrix, returns_matrix_percentages)))"

definition draw_plot :: "args \<Rightarrow> string \<Rightarrow> event list" where
  "draw_plot a filename =
     [Plt_grid, Plt_legend] @
     (if truthy (save_plot a) then [Plt_savefig filename] else [Plt_tight_layout, Plt_show])"

definition print_and_plot_portfolio_weights :: "weights \<Rightarrow> string \<Rightarrow> int \<Rightarrow> event list" where
  "print_and_plot_portfolio_weights weights_dictionary strategy plot_num =
     (let symbols = sort (dict_keys weights_dictionary);
          symbol_weights = map (dict_get weights_dictionary) symbols;
          width = 1 / 10;
          x = map real [0..<length symbol_weights]
      in [Print ([CHR 0x0A] @ ''-------- Weights for '' @ strategy @ '' --------'')] @
         map (\<lambda>symbol. Print_weight symbol (dict_get weights_dictionary symbol)) symbols @
         [Plt_bar (map (\<lambda>v. v + width * (real_of_int plot_num - 1) + 5 / 100) x)
            symbol_weights strategy width,
          Plt_xticks x symbols,
          Plt_yticks,
          Plt_xlabel ''Symbols'',
          Plt_ylabel ''Weight in Portfolio'',
          Plt_title ''Portfolio Weights for Different Strategies''])"

text \<open>
  A run is a sequence of steps; each step makes calls and may end in an exception, which
  ends the run (the module has no \<^verbatim>\<open>try\<close>). \<open>quiet\<close> is a step whose calls return;
  the three \<open>call_\<close> steps record the call and give the collaborator's outcome.
\<close>

definition quiet :: "event list \<Rightarrow> event list \<times> error option" where
  "quiet events = (events, None)"

definition call_back_test ::
  "collaborators \<Rightarrow> string list \<Rightarrow> weights \<Rightarrow> data_dictionary \<Rightarrow> real list \<Rightarrow> int \<Rightarrow> bool \<Rightarrow>
     string \<Rightarrow> event list \<times> error option" where
  "call_back_test sm s w d m l c n = ([Back_test s w d m l c n], back_test sm s w d m l c n)"

definition call_future_test ::
  "collaborators \<Rightarrow> string list \<Rightarrow> weights \<Rightarrow> data_dictionary \<Rightarrow> real list \<Rightarrow> int \<Rightarrow> bool \<Rightarrow>
     string \<Rightarrow> event list \<times> error option" where
  "call_future_test sm s w d m l c n = ([Future_test s w d m l c n], future_test sm s w d m l c n)"

definition call_simulate_portfolio ::
  "collaborators \<Rightarrow> string list \<Rightarrow> weights \<Rightarrow> data_dictionary \<Rightarrow> real list \<Rightarrow> int \<Rightarrow> bool \<Rightarrow>
     string \<Rightarrow> event list \<times> error option" where
  "call_simulate_portfolio sm s w d m l c n =
     ([Simulate_portfolio s w d m l c n], simulate_portfolio sm s w d m l c n)"

fun run_steps :: "(event list \<times> error option) list \<Rightarrow> event list \<times> error option" where
  "run_steps [] = ([], None)"
| "run_steps (step # steps) =
     (case snd step of
        Some e \<Rightarrow> step
      | None \<Rightarrow> (fst step @ fst (run_steps steps), snd (run_steps steps)))"

text \<open>
  \<^verbatim>\<open>run_strategies\<close> returns the calls it made, in order, and the exception that ended
  it, if any. In the module's own code only \<^verbatim>\<open>create_returns\<close> (inside \<^verbatim>\<open>load_data\<close>)
  can raise; by then the data engine has been asked for the tickers' data and nothing else.
\<close>

definition run_strategies ::
  "bool \<Rightarrow> args \<Rightarrow> data_engine \<Rightarrow> collaborators \<Rightarrow> event list \<times> error option" where
  "run_strategies ragged_raises a de sm =
     (case load_data ragged_raises de of
        Inl e \<Rightarrow> ([Call_collect_data_for_all_tickers], Some e)
      | Inr (historical_price_info, future_prices, symbol_names, predicted_return_vectors,
             returns_matrix, returns_matrix_percentages) \<Rightarrow>
          (let data_dictionary = collect_data_for_all_tickers de;
               (historical_price_market, future_prices_market) = get_market_index_price de;
               covariance_matrix =
                 (if truthy (apply_noise_filtering a)
                  then random_matrix_theory_based_cov sm returns_matrix
                  else np_cov sm returns_matrix);
               eigen_portfolio_weights_dictionary =
                 calculate_eigen_portfolio sm symbol_names covariance_matrix
                   (eigen_portfolio_number a);
               mvp_portfolio_weights_dictionary =
                 calculate_minimum_variance_portfolio sm symbol_names covariance_matrix;
               msr_portfolio_weights_dictionary =
                 calculate_maximum_sharpe_portfolio sm symbol_names covariance_matrix
                   predicted_return_vectors;
               ga_portfolio_weights_dictionary =
                 calculate_genetic_algo_portfolio sm symbol_names returns_matrix_percentages
           in run_steps
              ([quiet
                 ([Call_collect_data_for_all_tickers, Call_get_market_index_price,
                   Call_np_cov returns_matrix] @
                  (if truthy (apply_noise_filtering a)
                   then [Print ([CHR 0x0A] @ ''** Applying random matrix theory to filter out noise in the covariance matrix...'' @ [CHR 0x0A]),
                         Call_random_matrix_theory_based_cov returns_matrix]
                   else []) @
                  [Call_calculate_eigen_portfolio symbol_names covariance_matrix
                     (eigen_portfolio_number a),
                   Call_calculate_minimum_variance_portfolio symbol_names covariance_matrix,
                   Call_calculate_maximum_sharpe_portfolio symbol_names covariance_matrix
                     predicted_return_vectors,
                   Call_calculate_genetic_algo_portfolio symbol_names
                     returns_matrix_percentages,
                   Print ([CHR 0x0A] @ ''*% Printing portfolio weights...'')] @
                  print_and_plot_portfolio_weights eigen_portfolio_weights_dictionary
                    ''Eigen Portfolio'' 1 @
                  print_and_plot_portfolio_weights mvp_portfolio_weights_dictionary
                    ''Minimum Variance Portfolio (MVP)'' 2 @
                  print_and_plot_portfolio_weights msr_portfolio_weights_dictionary
                    ''Maximum Sharpe Portfolio (MSR)'' 3 @
                  print_and_plot_portfolio_weights ga_portfolio_weights_dictionary
                    ''Genetic Algo (GA)'' 4 @
                  draw_plot a ''output/weights.png'' @
                  [Print ([CHR 0x0A] @ ''*& Backtesting the portfolios...'')]),
                call_back_test sm symbol_names eigen_portfolio_weights_dictionary
                  data_dictionary historical_price_market (only_long a) True
                  ''Eigen Portfolio'',
                call_back_test sm symbol_names mvp_portfolio_weights_dictionary
                  data_dictionary historical_price_market (only_long a) False
                  ''Minimum Variance Portfolio (MVP)'',
                call_back_test sm symbol_names msr_portfolio_weights_dictionary
                  data_dictionary historical_price_market (only_long a) False
                  ''Maximum Sharpe Portfolio (MSR)'',
                call_back_test sm symbol_names ga_portfolio_weights_dictionary
                  data_dictionary historical_price_market (only_long a) False
                  ''Genetic Algo (GA)'',
                quiet (draw_plot a ''output/backtest.png'')] @
               (if truthy (is_test a)
                then [quiet [Print ([CHR 0x0A] @ ''#^ Future testing the portfolios...'')],
                      call_future_test sm symbol_names eigen_portfolio_weights_dictionary
                        data_dictionary future_prices_market (only_long a) True
                        ''Eigen Portfolio'',
                      call_future_test sm symbol_names mvp_portfolio_weights_dictionary
                        data_dictionary future_prices_market (only_long a) False
                        ''Minimum Variance Portfolio (MVP)'',
                      call_future_test sm symbol_names msr_portfolio_weights_dictionary
                        data_dictionary future_prices_market (only_long a) False
                        ''Maximum Sharpe Portfolio (MSR)'',
                      call_future_test sm symbol_names ga_portfolio_weights_dictionary
                        data_dictionary future_prices_market (only_long a) False
                        ''Genetic Algo (GA)'',
                      quiet (draw_plot a ''output/future_tests.png'')]
                else []) @
               [quiet [Print ([CHR 0x0A] @ ''+$ Simulating future prices using monte carlo...'')],
                call_simulate_portfolio sm symbol_names eigen_portfolio_weights_dictionary
                  data_dictionary future_prices_market (is_test a) True
                  ''Eigen Portfolio'',
                call_simulate_portfolio sm symbol_names eigen_portfolio_weights_dictionary
                  data_dictionary future_prices_market (is_test a) False
                  ''Minimum Variance Portfolio (MVP)'',
                call_simulate_portfolio sm symbol_names eigen_portfolio_weights_dictionary
                  data_dictionary future_prices_market (is_test a) False
                  ''Maximum Sharpe Portfolio (MSR)'',
                call_simulate_portfolio sm symbol_names ga_portfolio_weights_dictionary
                  data_dictionary future_prices_market (is_test a) False
                  ''Genetic Algo (GA)'',
                quiet (draw_plot a ''output/monte_carlo.png'')])))"

text \<open>
  Kinds of calls in a trace.
\<close>

fun is_strategy_call :: "event \<Rightarrow> bool" where
  "is_strategy_call (Call_calculate_eigen_portfolio _ _ _) = True"
| "is_strategy_call (Call_calculate_minimum_variance_portfolio _ _) = True"
| "is_strategy_call (Call_calculate_maximum_sharpe_portfolio _ _ _) = True"
| "is_strategy_call (Call_calculate_genetic_algo_portfolio _ _) = True"
| "is_strategy_call _ = False"

fun is_noise_filter_call :: "event \<Rightarrow> bool" where
  "is_noise_filter_call (Call_random_matrix_theory_based_cov _) = True"
| "is_noise_filter_call _ = False"

fun is_back_test :: "event \<Rightarrow> bool" where
  "is_back_test (Back_test _ _ _ _ _ _ _) = True"
| "is_back_test _ = False"

fun is_future_test :: "event \<Rightarrow> bool" where
  "is_future_test (Future_test _ _ _ _ _ _ _) = True"
| "is_future_test _ = False"

fun is_simulate_portfolio :: "event \<Rightarrow> bool" where
  "is_simulate_portfolio (Simulate_portfolio _ _ _ _ _ _ _) = True"
| "is_simulate_portfolio _ = False"

text \<open>
  Collaborators whose back tester and simulator return from every call.
\<close>

definition never_raises :: "collaborators \<Rightarrow> bool" where
  "never_raises sm \<longleftrightarrow>
     (\<forall>s w d m l c n.
        back_test sm s w d m l c n = None \<and> future_test sm s w d m l c n = None \<and>
        simulate_portfolio sm s w d m l c n = None)"

subsection \<open>A square symmetric matrix, and an example run\<close>

text \<open>
  The specification's shape of a covariance estimate: \<open>n\<close> rows of \<open>n\<close> entries, equal to
  its transpose.
\<close>

definition square_symmetric :: "nat \<Rightarrow> matrix \<Rightarrow> bool" where
  "square_symmetric n m \<longleftrightarrow>
     length m = n \<and> list_all (\<lambda>r. length r = n) m \<and>
     list_all (\<lambda>i. list_all (\<lambda>j. m ! i ! j = m ! j ! i) [0..<n]) [0..<n]"

text \<open>
  The sample covariance of the rows of a matrix (rows are variables, columns are
  observations, normalised by the number of columns less one): what \<^verbatim>\<open>np.cov\<close> computes
  on a rectangular matrix with at least two columns. It serves as \<^verbatim>\<open>np.cov\<close> and as a
  noise filter that filters nothing in the example run.
\<close>

definition row_mean :: "real list \<Rightarrow> real" where
  "row_mean xs = sum_list xs / real (length xs)"

definition sample_cov :: "matrix \<Rightarrow> matrix" where
  "sample_cov m =
     map (\<lambda>r. map (\<lambda>s. sum_list (map (\<lambda>k. (r ! k - row_mean r) * (s ! k - row_mean s))
                                   [0..<length r])
                        / (real (length r) - 1)) m) m"

text \<open>
  The two price series of the specification's scenario (both rise by 10% twice).
\<close>

definition scenario_prices :: "real list list" where
  "scenario_prices = [[100, 110, 121], [50, 55, 121 / 2]]"

text \<open>
  The arguments of the sample run in the module's docstring:
  \<^verbatim>\<open>--is_test 1 --future_bars 90 --data_granularity_minutes 3600 --history_to_use all
  --apply_noise_filtering 1 --market_index QQQ --only_long 1 --eigen_portfolio_number 3\<close>.
\<close>

definition sample_args :: args where
  "sample_args = \<lparr>save_plot = 0, history_to_use = ''all'', history_to_use_int = None,
      data_granularity_minutes = 3600, future_bars = 90, apply_noise_filtering = 1,
      only_long = 1, market_index = ''QQQ'', is_test = 1, eigen_portfolio_number = 3,
      stocks_file_path = ''stocks/stocks.txt''\<rparr>"

text \<open>
  An example run: two tickers with four historical prices each, and a strategy manager
  whose strategies do not look at the estimates (equal weights, everything on the first
  symbol, everything on the last symbol, three quarters on the first symbol); its back
  tester and simulator accept every call.
\<close>

definition example_history :: "real list list" where
  "example_history = [[100, 110, 121, 110], [50, 55, 121 / 2, 55]]"

definition example_engine :: data_engine where
  "example_engine =
     \<lparr>collect_data_for_all_tickers =
        [(''MSFT'', ([50, 55, 121 / 2, 55], [56, 57])),
         (''AAPL'', ([100, 110, 121, 110], [112, 115]))],
      get_market_index_price = ([300, 303, 306, 309], [312, 315])\<rparr>"

definition example_manager :: collaborators where
  "example_manager =
     \<lparr>np_cov = sample_cov,
      random_matrix_theory_based_cov = sample_cov,
      calculate_eigen_portfolio =
        (\<lambda>symbols cov n. map (\<lambda>s. (s, 1 / real (length symbols))) symbols),
      calculate_minimum_variance_portfolio =
        (\<lambda>symbols cov. map (\<lambda>s. (s, if s = hd symbols then 1 else 0)) symbols),
      calculate_maximum_sharpe_portfolio =
        (\<lambda>symbols cov predicted. map (\<lambda>s. (s, if s = last symbols then 1 else 0)) symbols),
      calculate_genetic_algo_portfolio =
        (\<lambda>symbols returns. map (\<lambda>s. (s, if s = hd symbols then 3 / 4 else 1 / 4)) symbols),
      back_test = (\<lambda>s w d m l c n. None),
      future_test = (\<lambda>s w d m l c n. None),
      simulate_portfolio = (\<lambda>s w d m l c n. None)\<rparr>"

text \<open>
  The same manager with an eigen strategy that returns a weight for the first symbol only.
\<close>

definition partial_manager :: collaborators where
  "partial_manager =
     example_manager\<lparr>calculate_eigen_portfolio := (\<lambda>symbols cov n. [(hd symbols, 1)])\<rparr>"


section \<open>Properties\<close>

subsection \<open>The error monad and comprehensions\<close>

lemma bind_result_Inl [simp]: "bind_result (Inl e) f = Inl e"
  by (simp add: bind_result_def)

lemma bind_result_Inr [simp]: "bind_result (Inr v) f = f v"
  by (simp add: bind_result_def)

lemma comprehension_Inr:
  "(\<And>x. x \<in> set xs \<Longrightarrow> f x = Inr (g x)) \<Longrightarrow> comprehension f xs = Inr (map g xs)"
  by (induction xs) simp_all

lemma comprehension_Inl:
  "comprehension f xs = Inl e \<Longrightarrow> \<exists>x\<in>set xs. f x = Inl e"
proof (induction xs)
  case Nil
  then show ?case by simp
next
  case (Cons x xs)
  then show ?case
    by (cases "f x"; cases "comprehension f xs") auto
qed

lemma comprehension_raises:
  "x \<in> set xs \<Longrightarrow> f x = Inl e \<Longrightarrow> \<exists>e'. comprehension f xs = Inl e'"
proof (induction xs)
  case Nil
  then show ?case by simp
next
  case (Cons y ys)
  then show ?case
    by (cases "f y"; cases "comprehension f ys") auto
qed

lemma step_ok_div:
  "step_ok cp i \<Longrightarrow> py_div (cp ! i) (cp ! (i - 1)) = Inr (cp ! i / cp ! (i - 1))"
  by (simp add: step_ok_def py_div_def)

lemma step_ok_log:
  "step_ok cp i \<Longrightarrow>
     bind_result (py_div (cp ! i) (cp ! (i - 1))) math_log = Inr (ln (cp ! i / cp ! (i - 1)))"
  by (simp add: step_ok_def py_div_def math_log_def)

lemma step_ok_percentage:
  "step_ok cp i \<Longrightarrow>
     calculate_percentage_change (cp ! (i - 1)) (cp ! i) =
       Inr ((cp ! i - cp ! (i - 1)) * 100 / cp ! (i - 1))"
  by (simp add: step_ok_def calculate_percentage_change_def py_div_def)

lemma not_step_ok_raises:
  "\<not> step_ok cp i \<Longrightarrow>
     bind_result (py_div (cp ! i) (cp ! (i - 1))) math_log = Inl ZeroDivisionError \<or>
     bind_result (py_div (cp ! i) (cp ! (i - 1))) math_log = Inl MathDomainError"
  by (auto simp: step_ok_def py_div_def math_log_def)

lemma log_step_error:
  "bind_result (py_div a b) math_log = Inl e \<Longrightarrow> e = ZeroDivisionError \<or> e = MathDomainError"
  by (auto simp: py_div_def math_log_def split: if_splits)

lemma returns_of_series_ok:
  assumes "series_ok cp"
  shows "returns_of_series cp = Inr (expected_return cp, log_returns_row cp, percentage_returns_row cp)"
proof -
  have ok: "step_ok cp i" if "i \<in> set [1..<length cp]" for i
    using assms that by (simp add: series_ok_def list_all_iff)
  have 1: "comprehension (\<lambda>i. bind_result (py_div (cp ! i) (cp ! (i - 1))) math_log)
             [1..<length cp] = Inr (log_returns_row cp)"
    unfolding log_returns_row_def
    by (rule comprehension_Inr) (rule step_ok_log [OF ok])
  have 2: "comprehension (\<lambda>i. calculate_percentage_change (cp ! (i - 1)) (cp ! i))
             [1..<length cp] = Inr (percentage_returns_row cp)"
    unfolding percentage_returns_row_def
    by (rule comprehension_Inr) (rule step_ok_percentage [OF ok])
  have 3: "comprehension (\<lambda>i. bind_result (calculate_percentage_change (cp ! (i - 1)) (cp ! i))
                 (\<lambda>c. py_div c (real (length cp - i))))
             [1..<length cp] =
           Inr (map (\<lambda>i. (cp ! i - cp ! (i - 1)) * 100 / cp ! (i - 1) / real (length cp - i))
                  [1..<length cp])"
  proof (rule comprehension_Inr)
    fix i assume i: "i \<in> set [1..<length cp]"
    then have nz: "real (length cp - i) \<noteq> 0" by simp
    have "bind_result (calculate_percentage_change (cp ! (i - 1)) (cp ! i))
                 (\<lambda>c. py_div c (real (length cp - i))) =
          py_div ((cp ! i - cp ! (i - 1)) * 100 / cp ! (i - 1)) (real (length cp - i))"
      by (subst step_ok_percentage [OF ok [OF i]]) (rule bind_result_Inr)
    also have "\<dots> = Inr ((cp ! i - cp ! (i - 1)) * 100 / cp ! (i - 1) / real (length cp - i))"
      unfolding py_div_def using nz by (rule if_not_P)
    finally show "bind_result (calculate_percentage_change (cp ! (i - 1)) (cp ! i))
                 (\<lambda>c. py_div c (real (length cp - i))) =
               Inr ((cp ! i - cp ! (i - 1)) * 100 / cp ! (i - 1) / real (length cp - i))" .
  qed
  show ?thesis
    unfolding returns_of_series_def Let_def 1 2 3 bind_result_Inr expected_return_def
    by (rule refl)
qed

lemma returns_of_series_raises:
  assumes "\<not> series_ok cp"
  shows "returns_of_series cp = Inl ZeroDivisionError \<or> returns_of_series cp = Inl MathDomainError"
proof -
  let ?f = "\<lambda>i. bind_result (py_div (cp ! i) (cp ! (i - 1))) math_log"
  from assms obtain i where i: "i \<in> set [1..<length cp]" "\<not> step_ok cp i"
    by (auto simp: series_ok_def list_all_iff)
  from not_step_ok_raises [OF i(2)] obtain e where "?f i = Inl e"
    by blast
  from comprehension_raises [of i "[1..<length cp]" ?f e, OF i(1) this]
  obtain e' where e': "comprehension ?f [1..<length cp] = Inl e'"
    by blast
  from comprehension_Inl [OF e'] obtain j where "?f j = Inl e'"
    by blast
  then have "e' = ZeroDivisionError \<or> e' = MathDomainError"
    by (rule log_step_error)
  with e' show ?thesis
    by (auto simp: returns_of_series_def)
qed

lemma create_returns_loop_eq:
  "create_returns_loop hp rm rmp prv =
     bind_result (comprehension returns_of_series hp)
       (\<lambda>rs. Inr (rm @ map (\<lambda>r. fst (snd r)) rs, rmp @ map (\<lambda>r. snd (snd r)) rs,
                  prv @ map fst rs))"
proof (induction hp arbitrary: rm rmp prv)
  case Nil
  then show ?case by simp
next
  case (Cons cp hp)
  show ?case
  proof (cases "returns_of_series cp")
    case (Inl e)
    then show ?thesis by simp
  next
    case (Inr r)
    then show ?thesis
      by (cases r; cases "comprehension returns_of_series hp") (simp_all add: Cons.IH)
  qed
qed

subsection \<open>Argument checking\<close>

lemma granularity_constraints_list_string_eq:
  "granularity_constraints_list_string = ''1,5,10,15,30,60,3600''"
  by (simp add: granularity_constraints_list_string_def granularity_constraints_list_def
      strip_commas_def str_int_def)

lemma granularity_message_neq_future_bars_message:
  "granularity_message \<noteq> future_bars_message"
  by (simp add: granularity_message_def future_bars_message_def)

lemma granularity_message_neq_history_message:
  "granularity_message \<noteq> history_message"
  by (simp add: granularity_message_def history_message_def)

text \<open>
  C10. \<^verbatim>\<open>check_arguments\<close> raises the granularity \<^verbatim>\<open>AssertionError\<close> for every
  argument set whose \<^verbatim>\<open>data_granularity_minutes\<close> is none of 1, 5, 10, 15, 30, 60, 3600,
  and for every argument set whose value is one of the seven it does not raise that
  assertion: its outcome is decided by the two later assertions alone.
\<close>

theorem check_arguments_granularity:
  "(data_granularity_minutes a \<notin> {1, 5, 10, 15, 30, 60, 3600} \<longrightarrow>
      check_arguments a = Inl (AssertionError granularity_message)) \<and>
   (data_granularity_minutes a \<in> {1, 5, 10, 15, 30, 60, 3600} \<longrightarrow>
      check_arguments a \<noteq> Inl (AssertionError granularity_message) \<and>
      check_arguments a = check_arguments (a\<lparr>data_granularity_minutes := 1\<rparr>))"
  using granularity_message_neq_future_bars_message granularity_message_neq_history_message
  by (auto simp: check_arguments_def granularity_constraints_list_def split: option.splits)

theorem check_arguments_granularity_witness:
  "data_granularity_minutes (sample_args\<lparr>data_granularity_minutes := 7\<rparr>)
     \<notin> {1, 5, 10, 15, 30, 60, 3600} \<and>
   check_arguments (sample_args\<lparr>data_granularity_minutes := 7\<rparr>) =
     Inl (AssertionError granularity_message) \<and>
   data_granularity_minutes sample_args \<in> {1, 5, 10, 15, 30, 60, 3600} \<and>
   check_arguments sample_args \<noteq> Inl (AssertionError granularity_message)"
proof -
  have 1: "data_granularity_minutes (sample_args\<lparr>data_granularity_minutes := 7\<rparr>)
             \<notin> {1, 5, 10, 15, 30, 60, 3600}"
    by simp
  have 2: "data_granularity_minutes sample_args \<in> {1, 5, 10, 15, 30, 60, 3600}"
    by (simp add: sample_args_def)
  from 1 2 check_arguments_granularity [of "sample_args\<lparr>data_granularity_minutes := 7\<rparr>"]
    check_arguments_granularity [of sample_args]
  show ?thesis
    by blast
qed

subsection \<open>\<^verbatim>\<open>create_returns\<close>: when it returns and when it raises\<close>

lemma length_log_returns_row [simp]: "length (log_returns_row cp) = length cp - 1"
  by (simp add: log_returns_row_def)

lemma length_percentage_returns_row [simp]: "length (percentage_returns_row cp) = length cp - 1"
  by (simp add: percentage_returns_row_def)

lemma np_array_log_rows:
  "np_array rr (map log_returns_row hp) =
     (if rr \<and> \<not> returns_rectangular hp then Inl InhomogeneousShapeError
      else Inr (map log_returns_row hp))"
  by (cases hp) (simp_all add: np_array_def returns_rectangular_def list_all_iff)

lemma np_array_percentage_rows:
  "np_array rr (map percentage_returns_row hp) =
     (if rr \<and> \<not> returns_rectangular hp then Inl InhomogeneousShapeError
      else Inr (map percentage_returns_row hp))"
  by (cases hp) (simp_all add: np_array_def returns_rectangular_def list_all_iff)

lemma create_returns_loop_ok:
  assumes "\<forall>cp\<in>set hp. series_ok cp"
  shows "create_returns_loop hp [] [] [] =
           Inr (map log_returns_row hp, map percentage_returns_row hp, map expected_return hp)"
proof -
  have "comprehension returns_of_series hp =
          Inr (map (\<lambda>cp. (expected_return cp, log_returns_row cp, percentage_returns_row cp)) hp)"
    by (rule comprehension_Inr) (simp add: assms returns_of_series_ok)
  then show ?thesis
    by (simp add: create_returns_loop_eq comp_def)
qed

lemma create_returns_ok:
  assumes "\<forall>cp\<in>set hp. series_ok cp"
  shows "create_returns rr hp =
           (if rr \<and> \<not> returns_rectangular hp then Inl InhomogeneousShapeError
            else Inr (map expected_return hp, map log_returns_row hp,
                      map percentage_returns_row hp))"
  by (simp add: create_returns_def create_returns_loop_ok [OF assms] np_array_log_rows
      np_array_percentage_rows)

lemma create_returns_raises:
  assumes "cp \<in> set hp" and "\<not> series_ok cp"
  shows "create_returns rr hp = Inl ZeroDivisionError \<or> create_returns rr hp = Inl MathDomainError"
proof -
  from returns_of_series_raises [OF assms(2)] obtain e where "returns_of_series cp = Inl e"
    by blast
  from comprehension_raises [of cp hp returns_of_series e, OF assms(1) this]
  obtain e' where e': "comprehension returns_of_series hp = Inl e'"
    by blast
  from comprehension_Inl [OF e'] obtain cp' where cp': "returns_of_series cp' = Inl e'"
    by blast
  then have "\<not> series_ok cp'"
    using returns_of_series_ok by fastforce
  from returns_of_series_raises [OF this] cp'
  have "e' = ZeroDivisionError \<or> e' = MathDomainError"
    by auto
  with e' show ?thesis
    by (auto simp: create_returns_def create_returns_loop_eq)
qed

lemma positive_series_ok:
  assumes "\<forall>x\<in>set cp. 0 < x"
  shows "series_ok cp"
  unfolding series_ok_def list_all_iff step_ok_def
proof
  fix i assume "i \<in> set [1..<length cp]"
  then have "i < length cp" "i - 1 < length cp"
    by auto
  then have "cp ! i \<in> set cp" "cp ! (i - 1) \<in> set cp"
    by (simp_all only: nth_mem)
  with assms have "0 < cp ! i" "0 < cp ! (i - 1)"
    by blast+
  then show "cp ! (i - 1) \<noteq> 0 \<and> 0 < cp ! i / cp ! (i - 1)"
    by simp
qed

lemma negative_series_ok:
  assumes "\<forall>x\<in>set cp. x < 0"
  shows "series_ok cp"
  unfolding series_ok_def list_all_iff step_ok_def
proof
  fix i assume "i \<in> set [1..<length cp]"
  then have "i < length cp" "i - 1 < length cp"
    by auto
  then have "cp ! i \<in> set cp" "cp ! (i - 1) \<in> set cp"
    by (simp_all only: nth_mem)
  with assms have "cp ! i < 0" "cp ! (i - 1) < 0"
    by blast+
  then show "cp ! (i - 1) \<noteq> 0 \<and> 0 < cp ! i / cp ! (i - 1)"
    by (simp add: zero_less_divide_iff)
qed

lemma short_series_ok: "length cp < 2 \<Longrightarrow> series_ok cp"
  by (simp add: series_ok_def list_all_iff)

lemma series_ok_same_sign:
  assumes "series_ok cp" and "i < length cp"
  shows "2 \<le> length cp \<longrightarrow> cp ! i \<noteq> 0 \<and> (0 < cp ! i \<longleftrightarrow> 0 < cp ! 0)"
  using assms(2)
proof (induction i)
  case 0
  show ?case
  proof
    assume "2 \<le> length cp"
    then have "step_ok cp 1"
      using assms(1) by (simp add: series_ok_def list_all_iff)
    then show "cp ! 0 \<noteq> 0 \<and> (0 < cp ! 0 \<longleftrightarrow> 0 < cp ! 0)"
      by (simp add: step_ok_def)
  qed
next
  case (Suc i)
  then have "step_ok cp (Suc i)"
    using assms(1) by (simp add: series_ok_def list_all_iff)
  then have "cp ! i \<noteq> 0" "0 < cp ! Suc i / cp ! i"
    by (simp_all add: step_ok_def)
  moreover from Suc have "2 \<le> length cp \<longrightarrow> (0 < cp ! i \<longleftrightarrow> 0 < cp ! 0)"
    by simp
  ultimately show ?case
    by (auto simp: zero_less_divide_iff)
qed

lemma series_ok_iff:
  "series_ok cp \<longleftrightarrow> length cp < 2 \<or> (\<forall>x\<in>set cp. 0 < x) \<or> (\<forall>x\<in>set cp. x < 0)"
proof
  assume ok: "series_ok cp"
  show "length cp < 2 \<or> (\<forall>x\<in>set cp. 0 < x) \<or> (\<forall>x\<in>set cp. x < 0)"
  proof (cases "length cp < 2")
    case True
    then show ?thesis by simp
  next
    case False
    then have sign: "\<And>i. i < length cp \<Longrightarrow> cp ! i \<noteq> 0 \<and> (0 < cp ! i \<longleftrightarrow> 0 < cp ! 0)"
      using series_ok_same_sign [OF ok] by simp
    show ?thesis
    proof (cases "0 < cp ! 0")
      case True
      with sign have "\<forall>x\<in>set cp. 0 < x"
        by (auto simp: in_set_conv_nth)
      then show ?thesis by simp
    next
      case False
      with sign have "\<forall>x\<in>set cp. x < 0"
        by (fastforce simp: in_set_conv_nth not_less)
      then show ?thesis by simp
    qed
  qed
next
  assume "length cp < 2 \<or> (\<forall>x\<in>set cp. 0 < x) \<or> (\<forall>x\<in>set cp. x < 0)"
  then show "series_ok cp"
    using short_series_ok positive_series_ok negative_series_ok by blast
qed

subsection \<open>The return matrices and the expected returns\<close>

lemma create_returns_Inr_D:
  assumes "create_returns rr hp = Inr (ev, lm, pm)"
  shows "(\<forall>cp\<in>set hp. series_ok cp) \<and> (rr \<longrightarrow> returns_rectangular hp) \<and>
         ev = map expected_return hp \<and> lm = map log_returns_row hp \<and>
         pm = map percentage_returns_row hp"
proof -
  have ok: "\<forall>cp\<in>set hp. series_ok cp"
  proof (rule ccontr)
    assume "\<not> (\<forall>cp\<in>set hp. series_ok cp)"
    then obtain cp where "cp \<in> set hp" "\<not> series_ok cp"
      by blast
    from create_returns_raises [OF this, of rr] assms show False
      by simp
  qed
  from create_returns_ok [OF ok, of rr] assms show ?thesis
    using ok by (simp split: if_splits)
qed

lemma valid_series_accepted:
  assumes "\<forall>cp\<in>set hp. length cp = L \<and> (\<forall>x\<in>set cp. 0 < x)"
  shows "create_returns rr hp =
           Inr (map expected_return hp, map log_returns_row hp, map percentage_returns_row hp)"
proof -
  have ok: "\<forall>cp\<in>set hp. series_ok cp"
    using assms positive_series_ok by blast
  have "returns_rectangular hp"
    using assms by (cases hp) (simp_all add: returns_rectangular_def list_all_iff)
  with create_returns_ok [OF ok, of rr] show ?thesis
    by simp
qed

lemma upt_from_one_nth:
  assumes "1 \<le> t" and "t < n"
  shows "t - 1 < length [1..<n]" and "[1..<n] ! (t - 1) = t"
proof -
  show "t - 1 < length [1..<n]"
    using assms by simp
  have "1 + (t - 1) < n"
    using assms by arith
  then have "[1..<n] ! (t - 1) = 1 + (t - 1)"
    by (rule nth_upt)
  with assms(1) show "[1..<n] ! (t - 1) = t"
    by arith
qed

lemma log_returns_row_nth:
  assumes "1 \<le> t" and "t < length cp"
  shows "log_returns_row cp ! (t - 1) = ln (cp ! t / cp ! (t - 1))"
  unfolding log_returns_row_def
  by (simp only: nth_map [OF upt_from_one_nth(1) [OF assms]] upt_from_one_nth(2) [OF assms])

lemma percentage_returns_row_nth:
  assumes "1 \<le> t" and "t < length cp"
  shows "percentage_returns_row cp ! (t - 1) = 100 * (cp ! t - cp ! (t - 1)) / cp ! (t - 1)"
  unfolding percentage_returns_row_def
  by (simp only: nth_map [OF upt_from_one_nth(1) [OF assms]] upt_from_one_nth(2) [OF assms]
      mult.commute)

lemma expected_return_eq:
  assumes "2 \<le> length cp"
  shows "expected_return cp =
           Finite ((\<Sum>t = 1..<length cp.
                      100 * (cp ! t - cp ! (t - 1)) / cp ! (t - 1) / real (length cp - t))
                   / real (length cp - 1))"
proof -
  let ?g = "\<lambda>i. (cp ! i - cp ! (i - 1)) * 100 / cp ! (i - 1) / real (length cp - i)"
  have ne: "map ?g [1..<length cp] \<noteq> []"
    using assms by auto
  have "sum_list (map ?g [1..<length cp]) = sum ?g {1..<length cp}"
    by (simp add: interv_sum_list_conv_sum_set_nat)
  also have "\<dots> = (\<Sum>t = 1..<length cp.
                      100 * (cp ! t - cp ! (t - 1)) / cp ! (t - 1) / real (length cp - t))"
    by (rule sum.cong) (simp_all add: mult.commute)
  finally have s: "sum_list (map ?g [1..<length cp]) =
      (\<Sum>t = 1..<length cp. 100 * (cp ! t - cp ! (t - 1)) / cp ! (t - 1) / real (length cp - t))" .
  have "expected_return cp = Finite (sum_list (map ?g [1..<length cp]) / real (length cp - 1))"
    unfolding expected_return_def np_mean_def using ne by simp
  with s show ?thesis
    by simp
qed

text \<open>
  C1. For price series that all have \<open>L \<ge> 2\<close> strictly positive prices,
  \<^verbatim>\<open>create_returns\<close> returns; both return matrices have one row per series and
  \<open>L - 1\<close> columns, and for \<open>t = 1..L-1\<close> column \<open>t - 1\<close> holds
  \<open>ln (price[t] / price[t-1])\<close> and \<open>100 * (price[t] - price[t-1]) / price[t-1]\<close>.
\<close>

theorem create_returns_matrices:
  assumes "\<forall>cp\<in>set hp. length cp = L \<and> (\<forall>x\<in>set cp. 0 < x)" and "2 \<le> L"
  shows "\<exists>ev lm pm. create_returns rr hp = Inr (ev, lm, pm) \<and>
           length lm = length hp \<and> length pm = length hp \<and>
           (\<forall>a<length hp. length (lm ! a) = L - 1 \<and> length (pm ! a) = L - 1 \<and>
              (\<forall>t\<in>{1..<L}.
                 lm ! a ! (t - 1) = ln (hp ! a ! t / hp ! a ! (t - 1)) \<and>
                 pm ! a ! (t - 1) = 100 * (hp ! a ! t - hp ! a ! (t - 1)) / hp ! a ! (t - 1)))"
proof -
  have rows: "length (lm ! a) = L - 1 \<and> length (pm ! a) = L - 1 \<and>
              (\<forall>t\<in>{1..<L}.
                 lm ! a ! (t - 1) = ln (hp ! a ! t / hp ! a ! (t - 1)) \<and>
                 pm ! a ! (t - 1) = 100 * (hp ! a ! t - hp ! a ! (t - 1)) / hp ! a ! (t - 1))"
    if a: "a < length hp" and lm: "lm = map log_returns_row hp"
      and pm: "pm = map percentage_returns_row hp" for a lm pm
  proof -
    have len: "length (hp ! a) = L"
      using assms(1) a by simp
    have "lm ! a = log_returns_row (hp ! a)" "pm ! a = percentage_returns_row (hp ! a)"
      using a lm pm by simp_all
    then show ?thesis
      using len log_returns_row_nth [of _ "hp ! a"] percentage_returns_row_nth [of _ "hp ! a"]
      by auto
  qed
  show ?thesis
  proof (intro exI conjI)
    show "create_returns rr hp =
            Inr (map expected_return hp, map log_returns_row hp, map percentage_returns_row hp)"
      by (rule valid_series_accepted [OF assms(1)])
    show "length (map log_returns_row hp) = length hp"
      by simp
    show "length (map percentage_returns_row hp) = length hp"
      by simp
    show "\<forall>a<length hp.
            length (map log_returns_row hp ! a) = L - 1 \<and>
            length (map percentage_returns_row hp ! a) = L - 1 \<and>
            (\<forall>t\<in>{1..<L}.
               map log_returns_row hp ! a ! (t - 1) = ln (hp ! a ! t / hp ! a ! (t - 1)) \<and>
               map percentage_returns_row hp ! a ! (t - 1) =
                 100 * (hp ! a ! t - hp ! a ! (t - 1)) / hp ! a ! (t - 1))"
      using rows [OF _ refl refl] by blast
  qed
qed

theorem create_returns_matrices_witness:
  "list_all (\<lambda>cp. length cp = 3 \<and> list_all (\<lambda>x. 0 < x) cp) scenario_prices \<and> (2::nat) \<le> 3 \<and>
   (\<exists>ev lm pm. create_returns True scenario_prices = Inr (ev, lm, pm) \<and>
           length lm = length scenario_prices \<and> length pm = length scenario_prices \<and>
           (\<forall>a<length scenario_prices. length (lm ! a) = 3 - 1 \<and> length (pm ! a) = 3 - 1 \<and>
              (\<forall>t\<in>{1..<3}.
                 lm ! a ! (t - 1) = ln (scenario_prices ! a ! t / scenario_prices ! a ! (t - 1)) \<and>
                 pm ! a ! (t - 1) =
                   100 * (scenario_prices ! a ! t - scenario_prices ! a ! (t - 1))
                     / scenario_prices ! a ! (t - 1))))"
proof -
  have h1: "\<forall>cp\<in>set scenario_prices. length cp = 3 \<and> (\<forall>x\<in>set cp. 0 < x)"
    by (simp add: scenario_prices_def)
  have h2: "(2::nat) \<le> 3"
    by simp
  have h: "list_all (\<lambda>cp. length cp = 3 \<and> list_all (\<lambda>x. 0 < x) cp) scenario_prices"
    by (simp add: scenario_prices_def)
  show ?thesis
    by (intro conjI h h2 create_returns_matrices [OF h1 h2])
qed

text \<open>
  C2. For a price series of \<open>L \<ge> 2\<close> strictly positive prices, the loop body yields,
  and \<^verbatim>\<open>create_returns\<close> returns for that asset, the arithmetic mean over
  \<open>t = 1..L-1\<close> of \<open>(100 * (price[t] - price[t-1]) / price[t-1]) / (L - t)\<close>.
\<close>

theorem expected_return_recency_weighted:
  assumes "a < length hp" and "length (hp ! a) = L" and "2 \<le> L"
    and "\<forall>x\<in>set (hp ! a). 0 < x"
  shows "(\<exists>lr pr. returns_of_series (hp ! a) =
            Inr (Finite ((\<Sum>t = 1..<L. 100 * (hp ! a ! t - hp ! a ! (t - 1)) / hp ! a ! (t - 1)
                                      / real (L - t)) / real (L - 1)), lr, pr)) \<and>
         (create_returns rr hp = Inr (ev, lm, pm) \<longrightarrow>
            ev ! a = Finite ((\<Sum>t = 1..<L. 100 * (hp ! a ! t - hp ! a ! (t - 1)) / hp ! a ! (t - 1)
                                      / real (L - t)) / real (L - 1)))"
proof -
  have e: "expected_return (hp ! a) =
      Finite ((\<Sum>t = 1..<L. 100 * (hp ! a ! t - hp ! a ! (t - 1)) / hp ! a ! (t - 1)
                               / real (L - t)) / real (L - 1))"
    using expected_return_eq [of "hp ! a"] assms(2,3) by simp
  have "returns_of_series (hp ! a) =
          Inr (expected_return (hp ! a), log_returns_row (hp ! a), percentage_returns_row (hp ! a))"
    by (rule returns_of_series_ok [OF positive_series_ok [OF assms(4)]])
  moreover have "ev ! a = expected_return (hp ! a)" if "create_returns rr hp = Inr (ev, lm, pm)"
    using create_returns_Inr_D [OF that] assms(1) by simp
  ultimately show ?thesis
    using e by simp
qed

theorem expected_return_recency_weighted_witness:
  "create_returns True scenario_prices = Inr
     ([Finite (15 / 2), Finite (15 / 2)],
      map log_returns_row scenario_prices, map percentage_returns_row scenario_prices) \<and>
   [Finite (15 / 2), Finite (15 / 2)] ! 0 =
     Finite ((\<Sum>t = 1..<3. 100 * (scenario_prices ! 0 ! t - scenario_prices ! 0 ! (t - 1))
                / scenario_prices ! 0 ! (t - 1) / real (3 - t)) / real (3 - 1))"
proof -
  have r: "create_returns True scenario_prices = Inr
     ([Finite (15 / 2), Finite (15 / 2)],
      map log_returns_row scenario_prices, map percentage_returns_row scenario_prices)"
  proof -
    have "\<forall>cp\<in>set scenario_prices. length cp = 3 \<and> (\<forall>x\<in>set cp. 0 < x)"
      by (simp add: scenario_prices_def)
    from valid_series_accepted [OF this, of True] show ?thesis
      by (simp add: scenario_prices_def expected_return_def np_mean_def)
  qed
  have "0 < length scenario_prices" "length (scenario_prices ! 0) = 3" "(2::nat) \<le> 3"
    "\<forall>x\<in>set (scenario_prices ! 0). 0 < x"
    by (simp_all add: scenario_prices_def)
  from expected_return_recency_weighted [OF this] r show ?thesis
    by blast
qed

lemma map_nth_reindex:
  "set p \<subseteq> {..<length xs} \<Longrightarrow> map f (map ((!) xs) p) = map ((!) (map f xs)) p"
  by (auto simp: subset_iff)

lemma create_returns_reindex:
  assumes "create_returns rr hp = Inr (ev, lm, pm)" and "set p \<subseteq> {..<length hp}"
  shows "create_returns rr (map ((!) hp) p) = Inr (map ((!) ev) p, map ((!) lm) p, map ((!) pm) p)"
proof -
  from create_returns_Inr_D [OF assms(1)]
  have ok: "\<forall>cp\<in>set hp. series_ok cp" and rect: "rr \<longrightarrow> returns_rectangular hp"
    and ev: "ev = map expected_return hp" and lm: "lm = map log_returns_row hp"
    and pm: "pm = map percentage_returns_row hp"
    by simp_all
  have mem: "hp ! i \<in> set hp" if "i \<in> set p" for i
    using assms(2) that by auto
  have ok': "\<forall>cp\<in>set (map ((!) hp) p). series_ok cp"
    using ok mem by auto
  have rect': "returns_rectangular (map ((!) hp) p)" if rr
  proof -
    from rect that have "\<forall>cp\<in>set hp. length cp - 1 = length (hd hp) - 1"
      by (simp add: returns_rectangular_def list_all_iff)
    then have "\<forall>cp\<in>set hp. \<forall>cp'\<in>set hp. length cp - 1 = length cp' - 1"
      by simp
    then show ?thesis
      using mem by (cases p) (simp_all add: returns_rectangular_def list_all_iff)
  qed
  have e1: "map expected_return (map ((!) hp) p) = map ((!) ev) p"
    unfolding ev by (rule map_nth_reindex [OF assms(2)])
  have e2: "map log_returns_row (map ((!) hp) p) = map ((!) lm) p"
    unfolding lm by (rule map_nth_reindex [OF assms(2)])
  have e3: "map percentage_returns_row (map ((!) hp) p) = map ((!) pm) p"
    unfolding pm by (rule map_nth_reindex [OF assms(2)])
  have "\<not> (rr \<and> \<not> returns_rectangular (map ((!) hp) p))"
    using rect' by blast
  then have "create_returns rr (map ((!) hp) p) =
      Inr (map expected_return (map ((!) hp) p), map log_returns_row (map ((!) hp) p),
           map percentage_returns_row (map ((!) hp) p))"
    using create_returns_ok [OF ok', of rr] by (simp only: if_False)
  then show ?thesis
    by (simp only: e1 e2 e3)
qed

text \<open>
  C9. For valid price series (strictly positive prices, a common number of observations)
  and a permutation \<open>p\<close> of the positions, \<^verbatim>\<open>create_returns\<close> of the permuted list
  is the expected-return vector and the rows of both matrices permuted by \<open>p\<close>; each
  asset's outputs are those of the loop body on its own series.
\<close>

theorem create_returns_permutation:
  assumes "\<forall>cp\<in>set hp. length cp = L \<and> (\<forall>x\<in>set cp. 0 < x)"
    and "mset p = mset [0..<length hp]"
  shows "\<exists>ev lm pm. create_returns rr hp = Inr (ev, lm, pm) \<and>
           create_returns rr (map ((!) hp) p) =
             Inr (map ((!) ev) p, map ((!) lm) p, map ((!) pm) p) \<and>
           (\<forall>a<length hp. returns_of_series (hp ! a) = Inr (ev ! a, lm ! a, pm ! a))"
proof -
  let ?ev = "map expected_return hp" and ?lm = "map log_returns_row hp"
    and ?pm = "map percentage_returns_row hp"
  have r: "create_returns rr hp = Inr (?ev, ?lm, ?pm)"
    by (rule valid_series_accepted [OF assms(1)])
  have "set p = set [0..<length hp]"
    using assms(2) by (rule mset_eq_setD)
  then have p: "set p \<subseteq> {..<length hp}"
    by auto
  have "returns_of_series (hp ! a) = Inr (?ev ! a, ?lm ! a, ?pm ! a)" if "a < length hp" for a
  proof -
    have "hp ! a \<in> set hp"
      using that by simp
    with assms(1) have "series_ok (hp ! a)"
      using positive_series_ok by blast
    then show ?thesis
      using that by (simp add: returns_of_series_ok)
  qed
  with r create_returns_reindex [OF r p] show ?thesis
    by blast
qed

theorem create_returns_permutation_witness:
  "mset [1, 0] = mset [0..<length scenario_prices] \<and>
   (\<exists>ev lm pm. create_returns True scenario_prices = Inr (ev, lm, pm) \<and>
      create_returns True [[50, 55, 121 / 2], [100, 110, 121]] =
        Inr ([ev ! 1, ev ! 0], [lm ! 1, lm ! 0], [pm ! 1, pm ! 0]))"
proof -
  have h1: "\<forall>cp\<in>set scenario_prices. length cp = 3 \<and> (\<forall>x\<in>set cp. 0 < x)"
    by (simp add: scenario_prices_def)
  have h2: "mset [1, 0] = mset [0..<length scenario_prices]"
    by (simp add: scenario_prices_def upt_rec)
  have "map ((!) scenario_prices) [1, 0] = [[50, 55, 121 / 2], [100, 110, 121]]"
    by (simp add: scenario_prices_def)
  with create_returns_permutation [OF h1 h2, of True] h2 show ?thesis
    by auto
qed

lemma short_series_rows:
  assumes "length cp < 2"
  shows "expected_return cp = NaN" "log_returns_row cp = []" "percentage_returns_row cp = []"
proof -
  have "[1..<length cp] = []"
    using assms by simp
  then show "expected_return cp = NaN" "log_returns_row cp = []" "percentage_returns_row cp = []"
    by (simp_all add: expected_return_def np_mean_def log_returns_row_def
        percentage_returns_row_def)
qed

text \<open>
  C3, counterexample. A series of negative closing prices raises nothing: the ratio of two
  negative prices is positive, so \<^verbatim>\<open>math.log\<close> accepts it and the matrices are returned.
\<close>

theorem create_returns_negative_prices_return:
  "create_returns True [[- 1, - 2]] = Inr ([Finite 100], [[ln 2]], [[100]])"
proof -
  have "\<forall>cp\<in>set [[- 1, - 2 :: real]]. series_ok cp"
    by (simp add: negative_series_ok)
  from create_returns_ok [OF this, of True] show ?thesis
    by (simp add: returns_rectangular_def expected_return_def log_returns_row_def
        percentage_returns_row_def np_mean_def)
qed

text \<open>
  C3, as the code has it. \<^verbatim>\<open>create_returns\<close> raises \<^verbatim>\<open>ZeroDivisionError\<close> or the
  \<^verbatim>\<open>ValueError\<close> of \<^verbatim>\<open>math.log\<close>, and so returns no matrix, exactly when some series of
  at least two observations is neither entirely positive nor entirely negative (it has a
  zero price, or prices of both signs).
\<close>

theorem create_returns_raises_iff:
  "(\<exists>cp\<in>set hp. 2 \<le> length cp \<and> \<not> (\<forall>x\<in>set cp. 0 < x) \<and> \<not> (\<forall>x\<in>set cp. x < 0)) \<longleftrightarrow>
   (create_returns rr hp = Inl ZeroDivisionError \<or> create_returns rr hp = Inl MathDomainError)"
proof
  assume "\<exists>cp\<in>set hp. 2 \<le> length cp \<and> \<not> (\<forall>x\<in>set cp. 0 < x) \<and> \<not> (\<forall>x\<in>set cp. x < 0)"
  then obtain cp where "cp \<in> set hp"
    and "2 \<le> length cp \<and> \<not> (\<forall>x\<in>set cp. 0 < x) \<and> \<not> (\<forall>x\<in>set cp. x < 0)"
    by blast
  then have "cp \<in> set hp" "\<not> series_ok cp"
    unfolding series_ok_iff by (simp_all add: not_less)
  then show "create_returns rr hp = Inl ZeroDivisionError \<or>
             create_returns rr hp = Inl MathDomainError"
    by (rule create_returns_raises)
next
  assume r: "create_returns rr hp = Inl ZeroDivisionError \<or>
             create_returns rr hp = Inl MathDomainError"
  have "\<not> (\<forall>cp\<in>set hp. series_ok cp)"
  proof
    assume "\<forall>cp\<in>set hp. series_ok cp"
    from create_returns_ok [OF this, of rr] r show False
      by (auto split: if_splits)
  qed
  then obtain cp where "cp \<in> set hp" "\<not> series_ok cp"
    by blast
  then have "cp \<in> set hp"
    and "2 \<le> length cp \<and> \<not> (\<forall>x\<in>set cp. 0 < x) \<and> \<not> (\<forall>x\<in>set cp. x < 0)"
    unfolding series_ok_iff by (simp_all add: not_less)
  then show "\<exists>cp\<in>set hp. 2 \<le> length cp \<and> \<not> (\<forall>x\<in>set cp. 0 < x) \<and> \<not> (\<forall>x\<in>set cp. x < 0)"
    by blast
qed

theorem create_returns_raises_iff_witness:
  "(\<exists>cp\<in>set [[0, 5 :: real]]. 2 \<le> length cp \<and> \<not> (\<forall>x\<in>set cp. 0 < x) \<and> \<not> (\<forall>x\<in>set cp. x < 0)) \<and>
   create_returns True [[0, 5]] = Inl ZeroDivisionError \<and>
   \<not> (\<exists>cp\<in>set [[- 1, - 2 :: real]].
        2 \<le> length cp \<and> \<not> (\<forall>x\<in>set cp. 0 < x) \<and> \<not> (\<forall>x\<in>set cp. x < 0)) \<and>
   create_returns True [[- 1, - 2]] \<noteq> Inl ZeroDivisionError \<and>
   create_returns True [[- 1, - 2]] \<noteq> Inl MathDomainError"
proof -
  have 1: "\<exists>cp\<in>set [[0, 5 :: real]]. 2 \<le> length cp \<and> \<not> (\<forall>x\<in>set cp. 0 < x) \<and> \<not> (\<forall>x\<in>set cp. x < 0)"
    by simp
  have 2: "\<not> (\<exists>cp\<in>set [[- 1, - 2 :: real]].
        2 \<le> length cp \<and> \<not> (\<forall>x\<in>set cp. 0 < x) \<and> \<not> (\<forall>x\<in>set cp. x < 0))"
    by simp
  have 3: "create_returns True [[0, 5]] \<noteq> Inl MathDomainError"
    by (simp add: create_returns_def returns_of_series_def py_div_def)
  from 1 2 3 create_returns_raises_iff [of "[[0, 5]]" True]
    create_returns_raises_iff [of "[[- 1, - 2]]" True]
  show ?thesis
    by blast
qed

text \<open>
  C4, counterexample. One series of a single price: \<^verbatim>\<open>create_returns\<close> returns empty
  rows and \<^verbatim>\<open>nan\<close> as the expected return.
\<close>

theorem create_returns_single_observation_returns:
  "create_returns True [[5]] = Inr ([NaN], [[]], [[]])"
proof -
  have "\<forall>cp\<in>set [[5 :: real]]. series_ok cp"
    by (simp add: short_series_ok)
  from create_returns_ok [OF this, of True] show ?thesis
    by (simp add: returns_rectangular_def short_series_rows)
qed

text \<open>
  C4, as the code has it. A series of fewer than two observations raises nothing: when
  \<^verbatim>\<open>create_returns\<close> returns, that asset's rows in both matrices are empty and its
  expected return is \<^verbatim>\<open>nan\<close> (\<^verbatim>\<open>np.mean\<close> of the empty list); and it does return when
  every series has fewer than two observations.
\<close>

theorem create_returns_short_series:
  assumes "a < length hp" and "length (hp ! a) < 2"
  shows "(create_returns rr hp = Inr (ev, lm, pm) \<longrightarrow> ev ! a = NaN \<and> lm ! a = [] \<and> pm ! a = []) \<and>
         ((\<forall>cp\<in>set hp. length cp < 2) \<longrightarrow>
            create_returns rr hp =
              Inr (map (\<lambda>cp. NaN) hp, map (\<lambda>cp. []) hp, map (\<lambda>cp. []) hp))"
proof
  show "create_returns rr hp = Inr (ev, lm, pm) \<longrightarrow> ev ! a = NaN \<and> lm ! a = [] \<and> pm ! a = []"
  proof
    assume "create_returns rr hp = Inr (ev, lm, pm)"
    from create_returns_Inr_D [OF this] assms(1) short_series_rows [OF assms(2)]
    show "ev ! a = NaN \<and> lm ! a = [] \<and> pm ! a = []"
      by simp
  qed
  show "(\<forall>cp\<in>set hp. length cp < 2) \<longrightarrow>
          create_returns rr hp = Inr (map (\<lambda>cp. NaN) hp, map (\<lambda>cp. []) hp, map (\<lambda>cp. []) hp)"
  proof
    assume short: "\<forall>cp\<in>set hp. length cp < 2"
    then have ok: "\<forall>cp\<in>set hp. series_ok cp"
      using short_series_ok by blast
    have rect: "returns_rectangular hp"
      using short by (cases hp) (auto simp: returns_rectangular_def list_all_iff)
    have "map expected_return hp = map (\<lambda>cp. NaN) hp"
      "map log_returns_row hp = map (\<lambda>cp. []) hp"
      "map percentage_returns_row hp = map (\<lambda>cp. []) hp"
      using short by (simp_all add: short_series_rows)
    with create_returns_ok [OF ok, of rr] rect
    show "create_returns rr hp = Inr (map (\<lambda>cp. NaN) hp, map (\<lambda>cp. []) hp, map (\<lambda>cp. []) hp)"
      by simp
  qed
qed

theorem create_returns_short_series_witness:
  "0 < length [[5 :: real]] \<and> length ([[5 :: real]] ! 0) < 2 \<and>
   create_returns True [[5]] = Inr ([NaN], [[]], [[]])"
proof -
  have h: "0 < length [[5 :: real]]" "length ([[5 :: real]] ! 0) < 2"
    by simp_all
  from create_returns_short_series [OF h, of True] h show ?thesis
    by simp
qed

subsection \<open>Steps of a run\<close>

lemma run_steps_quiet [simp]:
  "run_steps (quiet events # steps) = (events @ fst (run_steps steps), snd (run_steps steps))"
  by (simp add: quiet_def)

lemma run_steps_prefix: "prefix (fst (run_steps steps)) (concat (map fst steps))"
  by (induction steps) (auto split: option.splits)


lemma run_steps_all_return:
  "list_all (\<lambda>s. snd s = None) steps \<Longrightarrow> run_steps steps = (concat (map fst steps), None)"
  by (induction steps) simp_all

lemma filter_run_steps_empty:
  assumes "list_all (\<lambda>s. filter P (fst s) = []) steps"
  shows "filter P (fst (run_steps steps)) = []"
proof -
  have "filter P (concat (map fst steps)) = []"
    using assms by (induction steps) simp_all
  moreover have "prefix (filter P (fst (run_steps steps))) (filter P (concat (map fst steps)))"
    by (rule filter_mono_prefix [OF run_steps_prefix])
  ultimately show ?thesis
    by simp
qed




subsection \<open>The calls of \<^verbatim>\<open>run_strategies\<close>, by kind\<close>

lemma filter_print_and_plot [simp]:
  "filter is_strategy_call (print_and_plot_portfolio_weights w s n) = []"
  "filter is_noise_filter_call (print_and_plot_portfolio_weights w s n) = []"
  "filter is_back_test (print_and_plot_portfolio_weights w s n) = []"
  "filter is_future_test (print_and_plot_portfolio_weights w s n) = []"
  "filter is_simulate_portfolio (print_and_plot_portfolio_weights w s n) = []"
  by (simp_all add: print_and_plot_portfolio_weights_def Let_def filter_map comp_def)

lemma filter_draw_plot [simp]:
  "filter is_strategy_call (draw_plot a f) = []"
  "filter is_noise_filter_call (draw_plot a f) = []"
  "filter is_back_test (draw_plot a f) = []"
  "filter is_future_test (draw_plot a f) = []"
  "filter is_simulate_portfolio (draw_plot a f) = []"
  by (simp_all add: draw_plot_def)

lemma fst_snd_steps [simp]:
  "fst (quiet events) = events" "snd (quiet events) = None"
  "fst (call_back_test sm s w d m l c n) = [Back_test s w d m l c n]"
  "snd (call_back_test sm s w d m l c n) = back_test sm s w d m l c n"
  "fst (call_future_test sm s w d m l c n) = [Future_test s w d m l c n]"
  "snd (call_future_test sm s w d m l c n) = future_test sm s w d m l c n"
  "fst (call_simulate_portfolio sm s w d m l c n) = [Simulate_portfolio s w d m l c n]"
  "snd (call_simulate_portfolio sm s w d m l c n) = simulate_portfolio sm s w d m l c n"
  by (simp_all add: quiet_def call_back_test_def call_future_test_def
      call_simulate_portfolio_def)

lemma never_raises_D [simp]:
  assumes "never_raises sm"
  shows "back_test sm s w d m l c n = None" "future_test sm s w d m l c n = None"
    "simulate_portfolio sm s w d m l c n = None"
  using assms by (simp_all add: never_raises_def)

lemma run_strategies_raises:
  assumes "load_data rr de = Inl e"
  shows "run_strategies rr a de sm = ([Call_collect_data_for_all_tickers], Some e)"
  using assms by (simp add: run_strategies_def)


lemma strategy_calls:
  assumes "load_data rr de = Inr (hpi, fp, symbols, pv, rm, rmp)"
    and "cov = (if truthy (apply_noise_filtering a) then random_matrix_theory_based_cov sm rm
                else np_cov sm rm)"
  shows "filter is_strategy_call (fst (run_strategies rr a de sm)) =
           [Call_calculate_eigen_portfolio symbols cov (eigen_portfolio_number a),
            Call_calculate_minimum_variance_portfolio symbols cov,
            Call_calculate_maximum_sharpe_portfolio symbols cov pv,
            Call_calculate_genetic_algo_portfolio symbols rmp]"
  using assms
  by (simp add: run_strategies_def Let_def case_prod_beta filter_run_steps_empty
      del: run_steps.simps)

lemma noise_filter_calls:
  assumes "load_data rr de = Inr (hpi, fp, symbols, pv, rm, rmp)"
  shows "filter is_noise_filter_call (fst (run_strategies rr a de sm)) =
           (if truthy (apply_noise_filtering a) then [Call_random_matrix_theory_based_cov rm]
            else [])"
  using assms
  by (simp add: run_strategies_def Let_def case_prod_beta filter_run_steps_empty
      del: run_steps.simps)

lemma back_test_calls:
  assumes "load_data rr de = Inr (hpi, fp, symbols, pv, rm, rmp)"
    and "cov = (if truthy (apply_noise_filtering a) then random_matrix_theory_based_cov sm rm
                else np_cov sm rm)"
    and "never_raises sm"
  shows "filter is_back_test (fst (run_strategies rr a de sm)) =
           [Back_test symbols
              (calculate_eigen_portfolio sm symbols cov (eigen_portfolio_number a))
              (collect_data_for_all_tickers de) (fst (get_market_index_price de)) (only_long a)
              True ''Eigen Portfolio'',
            Back_test symbols (calculate_minimum_variance_portfolio sm symbols cov)
              (collect_data_for_all_tickers de) (fst (get_market_index_price de)) (only_long a)
              False ''Minimum Variance Portfolio (MVP)'',
            Back_test symbols (calculate_maximum_sharpe_portfolio sm symbols cov pv)
              (collect_data_for_all_tickers de) (fst (get_market_index_price de)) (only_long a)
              False ''Maximum Sharpe Portfolio (MSR)'',
            Back_test symbols (calculate_genetic_algo_portfolio sm symbols rmp)
              (collect_data_for_all_tickers de) (fst (get_market_index_price de)) (only_long a)
              False ''Genetic Algo (GA)'']"
  using assms
  by (simp add: run_strategies_def Let_def case_prod_beta run_steps_all_return
      del: run_steps.simps)

lemma future_test_calls:
  assumes "load_data rr de = Inr (hpi, fp, symbols, pv, rm, rmp)"
    and "cov = (if truthy (apply_noise_filtering a) then random_matrix_theory_based_cov sm rm
                else np_cov sm rm)"
    and "never_raises sm"
  shows "filter is_future_test (fst (run_strategies rr a de sm)) =
          (if truthy (is_test a) then
           [Future_test symbols
              (calculate_eigen_portfolio sm symbols cov (eigen_portfolio_number a))
              (collect_data_for_all_tickers de) (snd (get_market_index_price de)) (only_long a)
              True ''Eigen Portfolio'',
            Future_test symbols (calculate_minimum_variance_portfolio sm symbols cov)
              (collect_data_for_all_tickers de) (snd (get_market_index_price de)) (only_long a)
              False ''Minimum Variance Portfolio (MVP)'',
            Future_test symbols (calculate_maximum_sharpe_portfolio sm symbols cov pv)
              (collect_data_for_all_tickers de) (snd (get_market_index_price de)) (only_long a)
              False ''Maximum Sharpe Portfolio (MSR)'',
            Future_test symbols (calculate_genetic_algo_portfolio sm symbols rmp)
              (collect_data_for_all_tickers de) (snd (get_market_index_price de)) (only_long a)
              False ''Genetic Algo (GA)'']
           else [])"
  using assms
  by (simp add: run_strategies_def Let_def case_prod_beta run_steps_all_return
      del: run_steps.simps)

lemma simulate_portfolio_calls:
  assumes "load_data rr de = Inr (hpi, fp, symbols, pv, rm, rmp)"
    and "cov = (if truthy (apply_noise_filtering a) then random_matrix_theory_based_cov sm rm
                else np_cov sm rm)"
    and "eigen = calculate_eigen_portfolio sm symbols cov (eigen_portfolio_number a)"
    and "never_raises sm"
  shows "filter is_simulate_portfolio (fst (run_strategies rr a de sm)) =
           [Simulate_portfolio symbols eigen
              (collect_data_for_all_tickers de) (snd (get_market_index_price de)) (is_test a)
              True ''Eigen Portfolio'',
            Simulate_portfolio symbols eigen
              (collect_data_for_all_tickers de) (snd (get_market_index_price de)) (is_test a)
              False ''Minimum Variance Portfolio (MVP)'',
            Simulate_portfolio symbols eigen
              (collect_data_for_all_tickers de) (snd (get_market_index_price de)) (is_test a)
              False ''Maximum Sharpe Portfolio (MSR)'',
            Simulate_portfolio symbols (calculate_genetic_algo_portfolio sm symbols rmp)
              (collect_data_for_all_tickers de) (snd (get_market_index_price de)) (is_test a)
              False ''Genetic Algo (GA)'']"
  using assms
  by (simp add: run_strategies_def Let_def case_prod_beta run_steps_all_return
      del: run_steps.simps)




lemma not_in_run_steps:
  "x \<notin> set (concat (map fst steps)) \<Longrightarrow> x \<notin> set (fst (run_steps steps))"
  using set_mono_prefix [OF run_steps_prefix, of steps] by blast


subsection \<open>The example run\<close>

lemma load_data_example:
  "load_data rr example_engine =
     Inr (example_history, [[112, 115], [56, 57]], [''AAPL'', ''MSFT''],
          map expected_return example_history, map log_returns_row example_history,
          map percentage_returns_row example_history)"
proof -
  have "\<forall>cp\<in>set example_history. length cp = 4 \<and> (\<forall>x\<in>set cp. 0 < x)"
    by (simp add: example_history_def)
  from valid_series_accepted [OF this, of rr] show ?thesis
    by (simp add: load_data_def example_engine_def dict_keys_def dict_get_def Let_def
        example_history_def)
qed

lemma length_sample_cov [simp]: "length (sample_cov m) = length m"
  by (simp add: sample_cov_def)

lemma length_sample_cov_row:
  "i < length m \<Longrightarrow> length (sample_cov m ! i) = length m"
  by (simp add: sample_cov_def)

lemma sample_cov_nth:
  "i < length m \<Longrightarrow> j < length m \<Longrightarrow>
     sample_cov m ! i ! j =
       sum_list (map (\<lambda>k. (m ! i ! k - row_mean (m ! i)) * (m ! j ! k - row_mean (m ! j)))
                   [0..<length (m ! i)]) / (real (length (m ! i)) - 1)"
  by (simp add: sample_cov_def)

lemma sample_cov_square_symmetric:
  assumes "\<forall>r\<in>set m. length r = c"
  shows "square_symmetric (length m) (sample_cov m)"
proof -
  have len: "length (m ! i) = c" if "i < length m" for i
    using assms that by simp
  have rows: "list_all (\<lambda>r. length r = length m) (sample_cov m)"
    by (simp add: sample_cov_def list_all_iff)
  have "sample_cov m ! i ! j = sample_cov m ! j ! i" if "i < length m" "j < length m" for i j
    using that by (simp add: sample_cov_nth len mult.commute)
  then have "list_all (\<lambda>i. list_all (\<lambda>j. sample_cov m ! i ! j = sample_cov m ! j ! i)
                [0..<length m]) [0..<length m]"
    by (simp add: list_all_iff)
  with rows show ?thesis
    by (simp add: square_symmetric_def)
qed

lemma never_raises_examples [simp]:
  "never_raises example_manager" "never_raises partial_manager"
  by (simp_all add: never_raises_def partial_manager_def example_manager_def)

subsection \<open>Noise filtering\<close>

lemma load_data_Inr_D:
  assumes "load_data rr de = Inr (hpi, fp, symbols, pv, rm, rmp)"
  shows "symbols = sort (dict_keys (collect_data_for_all_tickers de))"
    and "length hpi = length symbols"
    and "create_returns rr hpi = Inr (pv, rm, rmp)"
    and "rm = map log_returns_row hpi"
proof -
  let ?symbols = "sort (dict_keys (collect_data_for_all_tickers de))"
  let ?hpi = "map (\<lambda>symbol. fst (dict_get (collect_data_for_all_tickers de) symbol)) ?symbols"
  from assms obtain r where r: "create_returns rr ?hpi = Inr r"
    by (cases "create_returns rr ?hpi") (simp_all add: load_data_def Let_def)
  with assms have eq: "hpi = ?hpi" "symbols = ?symbols" "r = (pv, rm, rmp)"
    by (auto simp: load_data_def Let_def split: prod.splits)
  show "symbols = ?symbols"
    by (rule eq(2))
  show "length hpi = length symbols"
    by (simp add: eq)
  show cr: "create_returns rr hpi = Inr (pv, rm, rmp)"
    using r eq by simp
  show "rm = map log_returns_row hpi"
    using create_returns_Inr_D [OF cr] by simp
qed

text \<open>
  C5, counterexample. In the example run the noise filter is called once, with the
  log-return matrix: two rows of three returns, which is not square and is not the
  covariance matrix that \<^verbatim>\<open>np.cov\<close> computed.
\<close>

theorem noise_filter_input_not_covariance:
  "filter is_noise_filter_call
     (fst (run_strategies True sample_args example_engine example_manager)) =
     [Call_random_matrix_theory_based_cov (map log_returns_row example_history)] \<and>
   map length (map log_returns_row example_history) = [3, 3] \<and>
   map length (np_cov example_manager (map log_returns_row example_history)) = [2, 2] \<and>
   np_cov example_manager (map log_returns_row example_history)
     \<noteq> map log_returns_row example_history"
proof -
  have 1: "filter is_noise_filter_call
     (fst (run_strategies True sample_args example_engine example_manager)) =
     [Call_random_matrix_theory_based_cov (map log_returns_row example_history)]"
    using noise_filter_calls [OF load_data_example, of True sample_args example_manager]
    by (simp add: sample_args_def truthy_def)
  have 2: "map length (map log_returns_row example_history) = [3, 3]"
    by (simp add: example_history_def)
  have 3: "map length (np_cov example_manager (map log_returns_row example_history)) = [2, 2]"
    by (simp add: example_manager_def sample_cov_def example_history_def)
  have "np_cov example_manager (map log_returns_row example_history)
     \<noteq> map log_returns_row example_history"
  proof
    assume "np_cov example_manager (map log_returns_row example_history) =
      map log_returns_row example_history"
    then have "map length (np_cov example_manager (map log_returns_row example_history)) =
      map length (map log_returns_row example_history)"
      by (rule arg_cong)
    then have "[2, 2] = [3, 3 :: nat]"
      by (simp only: 2 3)
    then show False
      by simp
  qed
  with 1 2 3 show ?thesis
    by blast
qed

text \<open>
  C5, as the code has it. When the noise-filtering flag is set, the filter is called once,
  on the log-return matrix (one row per asset), and the eigen, minimum-variance and
  maximum-Sharpe strategies receive its result as the covariance estimate; so a filter
  that returns a square symmetric matrix with as many rows as its input hands the
  strategies a square symmetric matrix of dimension equal to the asset count.
\<close>

theorem noise_filter_applied_to_returns:
  assumes "load_data rr de = Inr (hpi, fp, symbols, pv, rm, rmp)"
    and "truthy (apply_noise_filtering a)"
  shows "filter is_noise_filter_call (fst (run_strategies rr a de sm)) =
           [Call_random_matrix_theory_based_cov rm] \<and>
         filter is_strategy_call (fst (run_strategies rr a de sm)) =
           [Call_calculate_eigen_portfolio symbols (random_matrix_theory_based_cov sm rm)
              (eigen_portfolio_number a),
            Call_calculate_minimum_variance_portfolio symbols
              (random_matrix_theory_based_cov sm rm),
            Call_calculate_maximum_sharpe_portfolio symbols
              (random_matrix_theory_based_cov sm rm) pv,
            Call_calculate_genetic_algo_portfolio symbols rmp] \<and>
         rm = map log_returns_row hpi \<and> length rm = length symbols \<and>
         (square_symmetric (length rm) (random_matrix_theory_based_cov sm rm) \<longrightarrow>
            square_symmetric (length symbols) (random_matrix_theory_based_cov sm rm))"
proof -
  have rm: "rm = map log_returns_row hpi" and len: "length rm = length symbols"
    using load_data_Inr_D [OF assms(1)] by simp_all
  have "filter is_noise_filter_call (fst (run_strategies rr a de sm)) =
           [Call_random_matrix_theory_based_cov rm]"
    using noise_filter_calls [OF assms(1), of a sm] assms(2) by simp
  moreover have "filter is_strategy_call (fst (run_strategies rr a de sm)) =
           [Call_calculate_eigen_portfolio symbols (random_matrix_theory_based_cov sm rm)
              (eigen_portfolio_number a),
            Call_calculate_minimum_variance_portfolio symbols
              (random_matrix_theory_based_cov sm rm),
            Call_calculate_maximum_sharpe_portfolio symbols
              (random_matrix_theory_based_cov sm rm) pv,
            Call_calculate_genetic_algo_portfolio symbols rmp]"
    using strategy_calls [OF assms(1) refl, of a sm] assms(2) by simp
  ultimately show ?thesis
    using rm len by simp
qed

theorem noise_filter_applied_to_returns_witness:
  "truthy (apply_noise_filtering sample_args) \<and>
   filter is_noise_filter_call
     (fst (run_strategies True sample_args example_engine example_manager)) =
     [Call_random_matrix_theory_based_cov (map log_returns_row example_history)] \<and>
   length (map log_returns_row example_history) = length [''AAPL'', ''MSFT''] \<and>
   square_symmetric (length [''AAPL'', ''MSFT''])
     (random_matrix_theory_based_cov example_manager (map log_returns_row example_history))"
proof -
  have t: "truthy (apply_noise_filtering sample_args)"
    by (simp add: sample_args_def truthy_def)
  have "\<forall>r\<in>set (map log_returns_row example_history). length r = 3"
    by (simp add: example_history_def)
  from sample_cov_square_symmetric [OF this]
  have "square_symmetric (length (map log_returns_row example_history))
     (random_matrix_theory_based_cov example_manager (map log_returns_row example_history))"
    by (simp add: example_manager_def)
  with t noise_filter_applied_to_returns [OF load_data_example t, of True example_manager]
  show ?thesis
    by simp
qed


subsection \<open>Weight mappings are handed on unchecked\<close>




subsection \<open>The future-test phase\<close>

text \<open>
  C7, counterexample. In the example run with the test-mode flag off, the data engine is
  still asked for the market index's prices, future prices among them, and every
  \<^verbatim>\<open>simulate_portfolio\<close> call receives the future prices \<open>[312, 315]\<close>.
\<close>

theorem future_prices_used_outside_test_mode:
  "Call_get_market_index_price
     \<in> set (fst (run_strategies True (sample_args\<lparr>is_test := 0\<rparr>) example_engine
                 example_manager)) \<and>
   snd (get_market_index_price example_engine) = [312, 315] \<and>
   map (\<lambda>e. case e of Simulate_portfolio s w d m l c n \<Rightarrow> m)
     (filter is_simulate_portfolio
        (fst (run_strategies True (sample_args\<lparr>is_test := 0\<rparr>) example_engine
           example_manager))) =
     [[312, 315], [312, 315], [312, 315], [312, 315]]"
proof -
  have 1: "Call_get_market_index_price
     \<in> set (fst (run_strategies True (sample_args\<lparr>is_test := 0\<rparr>) example_engine
                 example_manager))"
    by (simp add: run_strategies_def load_data_example Let_def case_prod_beta
        del: run_steps.simps)
  have m: "snd (get_market_index_price example_engine) = [312, 315]"
    by (simp add: example_engine_def)
  from simulate_portfolio_calls [OF load_data_example refl refl never_raises_examples(1),
      where rr = True and a = "sample_args\<lparr>is_test := 0\<rparr>"] 1 m
  show ?thesis
    by simp
qed

text \<open>
  C7, as the code has it. In a run whose test-mode flag is not set, \<^verbatim>\<open>future_test\<close> is
  never called, for any strategy, and the plot of the future tests is never saved. The
  future prices are not left alone: in every run whose data loads,
  \<^verbatim>\<open>get_market_index_price\<close> is called, \<^verbatim>\<open>load_data\<close> reads every symbol's
  \<^verbatim>\<open>future_prices\<close>, and each \<^verbatim>\<open>simulate_portfolio\<close> call receives the market index's
  future prices (all four calls, when no collaborator raises).
\<close>

theorem future_test_skipped_future_prices_used:
  assumes "\<not> truthy (is_test a)"
  shows "filter is_future_test (fst (run_strategies rr a de sm)) = [] \<and>
         Plt_savefig ''output/future_tests.png'' \<notin> set (fst (run_strategies rr a de sm)) \<and>
         (load_data rr de = Inr (hpi, fp, symbols, pv, rm, rmp) \<longrightarrow>
            Call_get_market_index_price \<in> set (fst (run_strategies rr a de sm)) \<and>
            fp = map (\<lambda>symbol. snd (dict_get (collect_data_for_all_tickers de) symbol)) symbols \<and>
            (never_raises sm \<longrightarrow>
               map (\<lambda>e. case e of Simulate_portfolio s w d m l c n \<Rightarrow> m)
                 (filter is_simulate_portfolio (fst (run_strategies rr a de sm))) =
                 replicate 4 (snd (get_market_index_price de))))"
proof (intro conjI impI)
  show "filter is_future_test (fst (run_strategies rr a de sm)) = []"
  proof (cases "load_data rr de")
    case (Inl e)
    then show ?thesis
      by (simp add: run_strategies_raises)
  next
    case (Inr r)
    then show ?thesis
      using assms
      by (cases r)
         (simp add: run_strategies_def Let_def case_prod_beta filter_run_steps_empty
            del: run_steps.simps)
  qed
  show "Plt_savefig ''output/future_tests.png'' \<notin> set (fst (run_strategies rr a de sm))"
  proof (cases "load_data rr de")
    case (Inl e)
    then show ?thesis
      by (simp add: run_strategies_raises)
  next
    case (Inr r)
    then show ?thesis
      using assms
      by (cases r)
         (auto simp: run_strategies_def Let_def case_prod_beta draw_plot_def
            print_and_plot_portfolio_weights_def
            simp del: run_steps.simps run_steps_quiet intro!: not_in_run_steps)
  qed
  show "Call_get_market_index_price \<in> set (fst (run_strategies rr a de sm))"
    if "load_data rr de = Inr (hpi, fp, symbols, pv, rm, rmp)"
    using that
    by (simp add: run_strategies_def Let_def case_prod_beta del: run_steps.simps)
  show "fp = map (\<lambda>symbol. snd (dict_get (collect_data_for_all_tickers de) symbol)) symbols"
    if "load_data rr de = Inr (hpi, fp, symbols, pv, rm, rmp)"
    using that
    by (cases "create_returns rr
          (map (\<lambda>symbol. fst (dict_get (collect_data_for_all_tickers de) symbol))
             (sort (dict_keys (collect_data_for_all_tickers de))))")
       (auto simp: load_data_def Let_def split: prod.splits)
  show "map (\<lambda>e. case e of Simulate_portfolio s w d m l c n \<Rightarrow> m)
          (filter is_simulate_portfolio (fst (run_strategies rr a de sm))) =
        replicate 4 (snd (get_market_index_price de))"
    if "load_data rr de = Inr (hpi, fp, symbols, pv, rm, rmp)" and "never_raises sm"
    using simulate_portfolio_calls [OF that(1) refl refl that(2), of a]
    by (simp add: numeral_eq_Suc)
qed

theorem future_test_skipped_future_prices_used_witness:
  "\<not> truthy (is_test (sample_args\<lparr>is_test := 0\<rparr>)) \<and>
   never_raises example_manager \<and>
   filter is_future_test
     (fst (run_strategies True (sample_args\<lparr>is_test := 0\<rparr>) example_engine example_manager)) = [] \<and>
   Call_get_market_index_price
     \<in> set (fst (run_strategies True (sample_args\<lparr>is_test := 0\<rparr>) example_engine
                 example_manager)) \<and>
   map (\<lambda>e. case e of Simulate_portfolio s w d m l c n \<Rightarrow> m)
     (filter is_simulate_portfolio
        (fst (run_strategies True (sample_args\<lparr>is_test := 0\<rparr>) example_engine
           example_manager))) =
     replicate 4 (snd (get_market_index_price example_engine)) \<and>
   length (filter is_future_test
     (fst (run_strategies True sample_args example_engine example_manager))) = 4"
proof -
  have n: "\<not> truthy (is_test (sample_args\<lparr>is_test := 0\<rparr>))"
    by (simp add: truthy_def)
  have "length (filter is_future_test
     (fst (run_strategies True sample_args example_engine example_manager))) = 4"
    using future_test_calls [OF load_data_example refl never_raises_examples(1),
        where rr = True and a = sample_args]
    by (simp add: sample_args_def truthy_def)
  with n future_test_skipped_future_prices_used [OF n, where rr = True
      and de = example_engine and sm = example_manager] load_data_example [of True]
  show ?thesis
    by simp
qed

subsection \<open>The weights each phase receives\<close>

text \<open>
  C8, the code at a failing input. In the example run (test mode) the minimum-variance
  strategy returns all weight on \<^verbatim>\<open>AAPL\<close> and the maximum-Sharpe strategy all weight on
  \<^verbatim>\<open>MSFT\<close>; \<^verbatim>\<open>back_test\<close> and \<^verbatim>\<open>future_test\<close> receive these mappings, but
  \<^verbatim>\<open>simulate_portfolio\<close> is called for both strategies with the eigen portfolio's
  equal weights.
\<close>

theorem simulation_receives_eigen_weights:
  "map (\<lambda>e. case e of Back_test s w d m l c n \<Rightarrow> (n, w))
     (filter is_back_test
        (fst (run_strategies True sample_args example_engine example_manager))) =
     [(''Eigen Portfolio'', [(''AAPL'', 1 / 2), (''MSFT'', 1 / 2)]),
      (''Minimum Variance Portfolio (MVP)'', [(''AAPL'', 1), (''MSFT'', 0)]),
      (''Maximum Sharpe Portfolio (MSR)'', [(''AAPL'', 0), (''MSFT'', 1)]),
      (''Genetic Algo (GA)'', [(''AAPL'', 3 / 4), (''MSFT'', 1 / 4)])] \<and>
   map (\<lambda>e. case e of Future_test s w d m l c n \<Rightarrow> (n, w))
     (filter is_future_test
        (fst (run_strategies True sample_args example_engine example_manager))) =
     [(''Eigen Portfolio'', [(''AAPL'', 1 / 2), (''MSFT'', 1 / 2)]),
      (''Minimum Variance Portfolio (MVP)'', [(''AAPL'', 1), (''MSFT'', 0)]),
      (''Maximum Sharpe Portfolio (MSR)'', [(''AAPL'', 0), (''MSFT'', 1)]),
      (''Genetic Algo (GA)'', [(''AAPL'', 3 / 4), (''MSFT'', 1 / 4)])] \<and>
   map (\<lambda>e. case e of Simulate_portfolio s w d m l c n \<Rightarrow> (n, w))
     (filter is_simulate_portfolio
        (fst (run_strategies True sample_args example_engine example_manager))) =
     [(''Eigen Portfolio'', [(''AAPL'', 1 / 2), (''MSFT'', 1 / 2)]),
      (''Minimum Variance Portfolio (MVP)'', [(''AAPL'', 1 / 2), (''MSFT'', 1 / 2)]),
      (''Maximum Sharpe Portfolio (MSR)'', [(''AAPL'', 1 / 2), (''MSFT'', 1 / 2)]),
      (''Genetic Algo (GA)'', [(''AAPL'', 3 / 4), (''MSFT'', 1 / 4)])]"
proof -
  note n = never_raises_examples(1)
  have e: "calculate_eigen_portfolio example_manager s c k =
      map (\<lambda>x. (x, 1 / real (length s))) s"
    "calculate_minimum_variance_portfolio example_manager s c =
      map (\<lambda>x. (x, if x = hd s then 1 else 0)) s"
    "calculate_maximum_sharpe_portfolio example_manager s c p =
      map (\<lambda>x. (x, if x = last s then 1 else 0)) s"
    "calculate_genetic_algo_portfolio example_manager s r =
      map (\<lambda>x. (x, if x = hd s then 3 / 4 else 1 / 4)) s" for s c k p r
    by (simp_all add: example_manager_def)
  show ?thesis
    using back_test_calls [OF load_data_example refl n, where rr = True and a = sample_args]
      future_test_calls [OF load_data_example refl n, where rr = True and a = sample_args]
      simulate_portfolio_calls [OF load_data_example refl refl n,
        where rr = True and a = sample_args]
    by (simp add: e sample_args_def truthy_def)
qed

end
